theory Spec2Isabelle
  imports Complex_Main "HOL-Library.Sublist" "HOL-Library.Char_ord"
    "HOL-Library.List_Lexorder" "HOL-Library.AList"
begin

section \<open>Python strings and lists\<close>

text \<open>
  \<^verbatim>\<open>s.split(d)\<close> for a one-character separator: every occurrence of the separator
  ends a segment, so the result is never empty and has one more element than the string has
  separators.
\<close>

fun py_split :: "char \<Rightarrow> string \<Rightarrow> string list" where
  "py_split d [] = [[]]"
| "py_split d (c # cs) =
     (let r = py_split d cs in if c = d then [] # r else (c # hd r) # tl r)"

text \<open>\<^verbatim>\<open>biomarker.split('_')[-1]\<close> and \<^verbatim>\<open>disease_col.split('_')[0]\<close>.\<close>

definition last_segment :: "string \<Rightarrow> string" where
  "last_segment b = last (py_split CHR ''_'' b)"

definition first_segment :: "string \<Rightarrow> string" where
  "first_segment b = hd (py_split CHR ''_'' b)"

text \<open>\<^verbatim>\<open>sub in s\<close> on strings: \<open>sub\<close> occurs in \<open>s\<close> as a contiguous block.\<close>

fun py_in :: "string \<Rightarrow> string \<Rightarrow> bool" where
  "py_in sub [] = (sub = [])"
| "py_in sub (c # cs) = (prefix sub (c # cs) \<or> py_in sub cs)"

text \<open>
  \<^verbatim>\<open>s.lower()\<close> on the ASCII letters. The two words searched for below consist of ASCII
  letters that no character outside \<open>A\<close>..\<open>Z\<close> lowers to, so the other characters can stay
  as they are.
\<close>

definition lower_char :: "char \<Rightarrow> char" where
  "lower_char c =
     (if CHR ''A'' \<le> c \<and> c \<le> CHR ''Z'' then char_of (of_char c + (32::nat)) else c)"

definition py_lower :: "string \<Rightarrow> string" where
  "py_lower s = map lower_char s"

text \<open>\<^verbatim>\<open>col.endswith(f"_{biomarker}")\<close>.\<close>

definition ends_with_type :: "string \<Rightarrow> string \<Rightarrow> bool" where
  "ends_with_type col b = suffix (CHR ''_'' # b) col"

text \<open>Order of first appearance without repetitions, as \<^verbatim>\<open>Series.unique()\<close> and the keys
  of a dict filled in a loop have it.\<close>

fun py_unique :: "'a list \<Rightarrow> 'a list" where
  "py_unique [] = []"
| "py_unique (x # xs) = x # filter (\<lambda>y. y \<noteq> x) (py_unique xs)"

section \<open>Data frames\<close>

text \<open>
  A cell is missing (\<open>NA\<close>, pandas' NaN), text or a number. A number is the rational
  that the double of the source is; the model compares numbers and never computes with
  them.
\<close>

datatype cell = NA | S string | N rat

type_synonym row = "(string \<times> cell) list"

record frame =
  columns :: "string list"
  rows :: "row list"

definition getc :: "row \<Rightarrow> string \<Rightarrow> cell" where
  "getc r c = (case map_of r c of None \<Rightarrow> NA | Some v \<Rightarrow> v)"

text \<open>\<^verbatim>\<open>df.dropna(subset=cols)\<close>: a row stays when none of the listed cells is missing.\<close>

definition dropna :: "string list \<Rightarrow> row list \<Rightarrow> row list" where
  "dropna cols rs = filter (\<lambda>r. list_all (\<lambda>c. getc r c \<noteq> NA) cols) rs"

text \<open>\<^verbatim>\<open>df[df[col] == v]\<close>: NaN is equal to nothing, itself included.\<close>

definition cell_eq :: "cell \<Rightarrow> cell \<Rightarrow> bool" where
  "cell_eq a b = (a \<noteq> NA \<and> a = b)"

definition select_eq :: "string \<Rightarrow> cell \<Rightarrow> row list \<Rightarrow> row list" where
  "select_eq col v rs = filter (\<lambda>r. cell_eq (getc r col) v) rs"

datatype error =
    ValueError string
  | RuntimeError string
  | KeyError string
  | IndexError
  | TypeError
  | NameError

section \<open>The set-up steps of \<^verbatim>\<open>main\<close>\<close>

text \<open>
  The command line after \<^verbatim>\<open>argparse\<close>: an option that was not given is the empty
  list (\<^verbatim>\<open>nargs='+'\<close> never yields an empty list itself), the disease frame is the
  spreadsheet read from \<^verbatim>\<open>--disease_data\<close> when that path was given.
\<close>

record args =
  tissue_types_arg :: "string list"
  age_col :: string
  biomarker_types :: "string list"
  group_arg :: "string list"
  smoothing :: bool
  disease_frame :: "frame option"

definition tissue_types_of :: "args \<Rightarrow> string list" where
  "tissue_types_of a =
     (if tissue_types_arg a \<noteq> [] then tissue_types_arg a else [''GM'', ''WM''])"

text \<open>Lines 291--294: the optional cohort filter.\<close>

definition in_group :: "string list \<Rightarrow> row \<Rightarrow> bool" where
  "in_group g r = (case getc r ''Cohort'' of S v \<Rightarrow> v \<in> set g | _ \<Rightarrow> False)"

definition group_filter :: "string list \<Rightarrow> frame \<Rightarrow> error + frame" where
  "group_filter g df =
     (if g \<noteq> [] then
        (if ''Cohort'' \<notin> set (columns df) then Inl (ValueError ''No column named Cohort'')
         else Inr (df\<lparr>rows := filter (in_group g) (rows df)\<rparr>))
      else Inr df)"

text \<open>Lines 303--320: the disease columns of the requested biomarker types and the map from
  each of them to its tissue, a dict in insertion order.\<close>

definition disease_biomarkers :: "string list \<Rightarrow> frame \<Rightarrow> string list" where
  "disease_biomarkers btypes dd =
     concat (map (\<lambda>b. filter (\<lambda>col. ends_with_type col b) (columns dd)) btypes)"

definition make_disease_tissue_map :: "string list \<Rightarrow> (string \<times> string) list" where
  "make_disease_tissue_map cols =
     foldl (\<lambda>m col. AList.update col (first_segment col) m) [] cols"

definition load_disease :: "string list \<Rightarrow> frame option \<Rightarrow> error + (string \<times> string) list option" where
  "load_disease btypes dd =
     (case dd of
        None \<Rightarrow> Inr None
      | Some d \<Rightarrow>
          (if disease_biomarkers btypes d = []
           then Inl (ValueError ''No matching biomarker columns found in disease data'')
           else Inr (Some (make_disease_tissue_map (disease_biomarkers btypes d)))))"

text \<open>Lines 323--326: the first column whose lowered name contains one of the two words;
  \<^verbatim>\<open>not sex_column\<close> holds for \<^verbatim>\<open>None\<close> and for the empty string.\<close>

definition is_sex_name :: "string \<Rightarrow> bool" where
  "is_sex_name col = (py_in ''sex'' (py_lower col) \<or> py_in ''gender'' (py_lower col))"

definition no_sex_column :: error where
  "no_sex_column = ValueError ''No column found for sex/gender - check column names''"

definition find_sex_column :: "string list \<Rightarrow> error + string" where
  "find_sex_column cols =
     (case List.find is_sex_name cols of
        None \<Rightarrow> Inl no_sex_column
      | Some col \<Rightarrow> if col = [] then Inl no_sex_column else Inr col)"

text \<open>Lines 329--346: the biomarker columns present in the input, tissue by tissue, and the
  tissue of each.\<close>

definition expected_columns :: "string list \<Rightarrow> string list \<Rightarrow> (string \<times> string) list" where
  "expected_columns tissues btypes =
     concat (map (\<lambda>t. map (\<lambda>b. (t @ ''_'' @ b, t)) btypes) tissues)"

definition found_columns :: "string list \<Rightarrow> string list \<Rightarrow> frame \<Rightarrow> (string \<times> string) list" where
  "found_columns tissues btypes df =
     filter (\<lambda>(name, t). name \<in> set (columns df)) (expected_columns tissues btypes)"

definition no_biomarker_columns :: error where
  "no_biomarker_columns =
     ValueError ''None of the expected biomarker columns were found in the input data''"

definition make_biomarker_tissue_map :: "(string \<times> string) list \<Rightarrow> (string \<times> string) list" where
  "make_biomarker_tissue_map found = foldl (\<lambda>m (name, t). AList.update name t m) [] found"

text \<open>Lines 350--351.\<close>

definition required_columns :: "string \<Rightarrow> (string \<times> string) list \<Rightarrow> string list" where
  "required_columns sex_column found = sex_column # map fst found"

definition unique_sex_labels :: "string \<Rightarrow> row list \<Rightarrow> cell list" where
  "unique_sex_labels sex_column rs = py_unique (map (\<lambda>r. getc r sex_column) rs)"

text \<open>\<^verbatim>\<open>check_r_installed\<close>: the run stops when the R executable is not found. The
  flag says whether it is there.\<close>

definition check_r_installed :: "bool \<Rightarrow> error + unit" where
  "check_r_installed installed =
     (if installed then Inr ()
      else Inl (RuntimeError ''R is not installed. Run setup/install_r.py first.''))"

section \<open>The age-distribution plot\<close>

text \<open>
  What \<^verbatim>\<open>compute_growth_curves\<close> hands to \<^verbatim>\<open>plt.hist\<close>, one record per call: the ages
  of one sex, the sequence given as \<^verbatim>\<open>bins\<close>, the two parts of the legend label and the
  colour. Drawing itself is matplotlib's.

  An edge of the bins is a double. The model has it exactly where the source copies a number
  (\<open>Exact\<close>, with \<open>None\<close> for NaN); where the source computes it in floating point, the
  model names the computation and gives it no value: \<open>Rounded a b i n\<close> is the double that
  \<^verbatim>\<open>np.linspace(a, b, n)\<close> computes for \<open>i * ((b - a) / (n - 1)) + a\<close>.
\<close>

datatype edge = Exact "rat option" | Rounded rat rat nat nat

record hist_call =
  h_ages :: "cell list"
  h_bins :: "edge list"
  h_gender :: cell
  h_count :: nat
  h_color :: string

definition colors :: "string list" where
  "colors = [''#1f77b4'', ''#ff7f0e'', ''#2ca02c'']"

definition numbers_of :: "cell list \<Rightarrow> rat list" where
  "numbers_of cs = concat (map (\<lambda>c. case c of N r \<Rightarrow> [r] | _ \<Rightarrow> []) cs)"

definition is_text :: "cell \<Rightarrow> bool" where
  "is_text c = (case c of S _ \<Rightarrow> True | _ \<Rightarrow> False)"

definition is_number :: "cell \<Rightarrow> bool" where
  "is_number c = (case c of N _ \<Rightarrow> True | _ \<Rightarrow> False)"

text \<open>\<^verbatim>\<open>Series.min()\<close> and \<^verbatim>\<open>Series.max()\<close> skip missing values and are NaN when nothing
  is left.\<close>

definition series_min :: "cell list \<Rightarrow> rat option" where
  "series_min cs = (case numbers_of cs of [] \<Rightarrow> None | r # rs \<Rightarrow> Some (fold min rs r))"

definition series_max :: "cell list \<Rightarrow> rat option" where
  "series_max cs = (case numbers_of cs of [] \<Rightarrow> None | r # rs \<Rightarrow> Some (fold max rs r))"

text \<open>\<^verbatim>\<open>np.linspace(start, stop, num)\<close>: \<open>num\<close> points. The first is \<open>start\<close> itself
  (\<open>0 * step + start\<close>), the last is set to \<open>stop\<close>, and the points between them are
  computed in floating point. With a NaN end every point is NaN.\<close>

definition linspace :: "rat option \<Rightarrow> rat option \<Rightarrow> nat \<Rightarrow> edge list" where
  "linspace start stop num =
     (case (start, stop) of
        (Some a, Some b) \<Rightarrow>
          map (\<lambda>i. if i = 0 then Exact (Some a)
                   else if Suc i = num then Exact (Some b)
                   else Rounded a b i num) [0..<num]
      | _ \<Rightarrow> replicate num (Exact None))"

text \<open>A sequence given as \<^verbatim>\<open>bins\<close> lists the edges, the left edge of the first bin and the
  right edge of the last one included: it stands for one bin less than it has elements.\<close>

definition bin_count :: "edge list \<Rightarrow> nat" where
  "bin_count edges = length edges - 1"

text \<open>Lines 109--113. \<^verbatim>\<open>gender_counts[gender]\<close> raises for a label that no row carries,
  \<^verbatim>\<open>colors[i]\<close> for the fourth label.\<close>

fun hist_loop ::
  "row list \<Rightarrow> string \<Rightarrow> string \<Rightarrow> edge list \<Rightarrow> nat \<Rightarrow> cell list \<Rightarrow> error + hist_call list"
where
  "hist_loop rs sexc agec bins i [] = Inr []"
| "hist_loop rs sexc agec bins i (g # gs) =
     (let sub = select_eq sexc g rs in
      if sub = [] then Inl (KeyError ''gender_counts'')
      else if length colors \<le> i then Inl IndexError
      else (case hist_loop rs sexc agec bins (Suc i) gs of
              Inl e \<Rightarrow> Inl e
            | Inr hs \<Rightarrow>
                Inr (\<lparr>h_ages = map (\<lambda>r. getc r agec) sub, h_bins = bins, h_gender = g,
                       h_count = length sub, h_color = colors ! i\<rparr> # hs)))"

text \<open>Lines 97--113.\<close>

definition age_distribution ::
  "frame \<Rightarrow> string \<Rightarrow> string \<Rightarrow> cell list \<Rightarrow> error + hist_call list"
where
  "age_distribution df sexc agec labels =
     (if sexc \<notin> set (columns df) then Inl (KeyError sexc)
      else if agec \<notin> set (columns df) then Inl (KeyError agec)
      else
        (let ages = map (\<lambda>r. getc r agec) (rows df) in
         if list_ex is_text ages then Inl TypeError
         else hist_loop (rows df) sexc agec
                (linspace (series_min ages) (series_max ages) 30) 0 labels))"

section \<open>The external fitting procedure\<close>

text \<open>
  One call of \<^verbatim>\<open>run_r_script_from_file\<close>: the script and the keyword arguments that vary.
  The R side is outside the program. It is a parameter of the model, a function of the calls
  made so far and of the present call (R keeps its global environment between calls), and
  it either raises or returns an R object. Lines 225--238 read that object; the model keeps
  of it only whether reading raises or which leaf it gives.
\<close>

record fit_call =
  script :: string
  fc_input :: "row list"
  column_x :: string
  column_y :: string
  fc_sex :: cell
  fc_disease :: "row list option"
  fc_tissue_type :: "string option"

record 'v model_parameters =
  model_type :: string
  aic :: "'v option"
  mu :: "'v option"
  sigma :: "'v option"
  nu :: "'v option"
  tau :: "'v option"
  coefs :: "(string \<times> 'v) list"

record 'v leaf =
  model_params :: "'v model_parameters"
  centiles :: "row list"

datatype 'v r_result = Unreadable | Readable "'v leaf"

datatype 'v fit_outcome = Raises | Returns "'v r_result"

type_synonym 'v fitter = "fit_call list \<Rightarrow> fit_call \<Rightarrow> 'v fit_outcome"

section \<open>The combination loop\<close>

text \<open>The nested dict \<^verbatim>\<open>results[t][s][biomarker]\<close>, each level in insertion order.\<close>

type_synonym 'v results = "(string \<times> (cell \<times> (string \<times> 'v leaf) list) list) list"

definition lookup3 :: "'v results \<Rightarrow> string \<Rightarrow> cell \<Rightarrow> string \<Rightarrow> 'v leaf option" where
  "lookup3 res t s b =
     (case map_of res t of
        None \<Rightarrow> None
      | Some by_sex \<Rightarrow> (case map_of by_sex s of None \<Rightarrow> None | Some by_b \<Rightarrow> map_of by_b b))"

text \<open>The parameters of \<^verbatim>\<open>compute_growth_curves\<close>.\<close>

record job =
  j_input :: frame
  j_biomarkers :: "string list"
  j_biomarker_tissue_map :: "(string \<times> string) list"
  j_tissue_types :: "string list"
  j_sex_column :: string
  j_sex_labels :: "cell list"
  j_age_column :: string
  j_disease_data :: "frame option"
  j_disease_tissue_map :: "(string \<times> string) list option"
  j_smoothing :: bool

text \<open>The variables that live across iterations: the dict, the local \<^verbatim>\<open>result\<close>
  (\<open>None\<close> while it is unbound) and, for the record, the calls made.\<close>

record 'v loop_state =
  results :: "'v results"
  result_var :: "'v r_result option"
  calls :: "fit_call list"

definition r_script_path :: "job \<Rightarrow> string" where
  "r_script_path j =
     (if j_smoothing j then ''./growth_curves/growth_curves_defaultsmoothing.R''
      else ''./growth_curves/growth_curves_selectmodels.R'')"

text \<open>Lines 149--150.\<close>

definition disease_cols :: "string list \<Rightarrow> string \<Rightarrow> string list" where
  "disease_cols dkeys biomarker = filter (\<lambda>col. py_in (last_segment biomarker) col) dkeys"

text \<open>Lines 160--175 for one disease column: the three-column frame without its incomplete
  rows, or \<open>None\<close> when building it raises and the inner handler skips the column.\<close>

definition disease_subset ::
  "frame \<Rightarrow> row list \<Rightarrow> string \<Rightarrow> string \<Rightarrow> (string \<times> string) list \<Rightarrow> string \<Rightarrow> row list option"
where
  "disease_subset dd fdd agec biomarker dmap dcol =
     (if agec \<notin> set (columns dd) \<or> dcol \<notin> set (columns dd) then None
      else (case map_of dmap dcol of
              None \<Rightarrow> None
            | Some tissue \<Rightarrow>
                Some (filter (\<lambda>r. list_all (\<lambda>kv. snd kv \<noteq> NA) r)
                  (map (\<lambda>r. AList.update ''tissue_column'' (S tissue)
                              (AList.update biomarker (getc r dcol) [(agec, getc r agec)]))
                     fdd))))"

definition disease_data_list ::
  "frame \<Rightarrow> row list \<Rightarrow> string \<Rightarrow> string \<Rightarrow> (string \<times> string) list \<Rightarrow> string list \<Rightarrow> row list list"
where
  "disease_data_list dd fdd agec biomarker dmap dcols =
     List.map_filter
       (\<lambda>dcol. case disease_subset dd fdd agec biomarker dmap dcol of
                 None \<Rightarrow> None
               | Some sub \<Rightarrow> if sub \<noteq> [] then Some sub else None)
       dcols"

text \<open>Lines 147--217: the call this iteration makes, or \<open>None\<close> when it makes none (disease
  columns match, and no subset has a row left: no branch assigns \<^verbatim>\<open>result\<close>).\<close>

definition choose_call ::
  "job \<Rightarrow> row list \<Rightarrow> row list \<Rightarrow> bool \<Rightarrow> cell \<Rightarrow> string \<Rightarrow> string \<Rightarrow> fit_call option"
where
  "choose_call j fin fdd has_dd s t biomarker =
     (let plain = \<lparr>script = r_script_path j, fc_input = fin, column_x = j_age_column j,
                    column_y = biomarker, fc_sex = s, fc_disease = None,
                    fc_tissue_type = None\<rparr>
      in case (j_disease_data j, j_disease_tissue_map j) of
           (Some dd, Some dmap) \<Rightarrow>
             (if has_dd then
                (let dcols = disease_cols (map fst dmap) biomarker in
                 if dcols \<noteq> [] then
                   (let dl = disease_data_list dd fdd (j_age_column j) biomarker dmap dcols in
                    if dl \<noteq> [] then
                      Some (plain\<lparr>fc_disease := Some (concat dl), fc_tissue_type := Some t\<rparr>)
                    else None)
                 else Some plain)
              else Some plain)
         | _ \<Rightarrow> Some plain)"

text \<open>Lines 220--238, run once the branches above are through: the two intermediate dicts
  are created first, then \<^verbatim>\<open>result\<close> is read. Reading raises when the variable is unbound
  or the object does not convert, and the handler of line 240 moves on.\<close>

definition ensure_key :: "'k \<Rightarrow> ('k \<times> 'a list) list \<Rightarrow> ('k \<times> 'a list) list" where
  "ensure_key k m = (if map_of m k = None then m @ [(k, [])] else m)"

definition put_leaf :: "string \<Rightarrow> cell \<Rightarrow> string \<Rightarrow> 'v leaf \<Rightarrow> 'v results \<Rightarrow> 'v results" where
  "put_leaf t s b l res =
     AList.map_entry t (AList.map_entry s (AList.update b l)) res"

definition ensure_path :: "string \<Rightarrow> cell \<Rightarrow> 'v results \<Rightarrow> 'v results" where
  "ensure_path t s res = AList.map_entry t (ensure_key s) (ensure_key t res)"

definition store_result :: "cell \<Rightarrow> string \<Rightarrow> string \<Rightarrow> 'v loop_state \<Rightarrow> 'v loop_state" where
  "store_result s t biomarker st =
     (let res = ensure_path t s (results st) in
      case result_var st of
        Some (Readable l) \<Rightarrow> st\<lparr>results := put_leaf t s biomarker l res\<rparr>
      | _ \<Rightarrow> st\<lparr>results := res\<rparr>)"

text \<open>One pass through the body of the innermost loop, lines 141--242.\<close>

definition process_combination ::
  "'v fitter \<Rightarrow> job \<Rightarrow> row list \<Rightarrow> row list \<Rightarrow> bool \<Rightarrow> cell \<Rightarrow> string \<Rightarrow>
     'v loop_state \<Rightarrow> string \<Rightarrow> 'v loop_state"
where
  "process_combination fit j fin fdd has_dd s t st biomarker =
     (case choose_call j fin fdd has_dd s t biomarker of
        None \<Rightarrow> store_result s t biomarker st
      | Some c \<Rightarrow>
          (case fit (calls st) c of
             Raises \<Rightarrow> st\<lparr>calls := calls st @ [c]\<rparr>
           | Returns r \<Rightarrow>
               store_result s t biomarker (st\<lparr>calls := calls st @ [c], result_var := Some r\<rparr>)))"

definition tissue_biomarkers :: "job \<Rightarrow> string \<Rightarrow> string list" where
  "tissue_biomarkers j t =
     filter (\<lambda>b. map_of (j_biomarker_tissue_map j) b = Some t) (j_biomarkers j)"

text \<open>Lines 136--140: \<^verbatim>\<open>biomarker_tissue_map[b]\<close> raises, outside the handler, for a
  biomarker that the map does not have.\<close>

fun tissue_loop ::
  "'v fitter \<Rightarrow> job \<Rightarrow> row list \<Rightarrow> row list \<Rightarrow> bool \<Rightarrow> cell \<Rightarrow> string list \<Rightarrow>
     'v loop_state \<Rightarrow> error option \<times> 'v loop_state"
where
  "tissue_loop fit j fin fdd has_dd s [] st = (None, st)"
| "tissue_loop fit j fin fdd has_dd s (t # ts) st =
     (if list_ex (\<lambda>b. map_of (j_biomarker_tissue_map j) b = None) (j_biomarkers j)
      then (Some (KeyError ''biomarker_tissue_map''), st)
      else tissue_loop fit j fin fdd has_dd s ts
             (foldl (process_combination fit j fin fdd has_dd s t) st (tissue_biomarkers j t)))"

text \<open>Lines 124--136: the rows of one sex, of the input and of the disease data; the latter
  raises, outside the handler, when the disease data has no column of that name.\<close>

definition sex_iteration ::
  "'v fitter \<Rightarrow> job \<Rightarrow> cell \<Rightarrow> 'v loop_state \<Rightarrow> error option \<times> 'v loop_state"
where
  "sex_iteration fit j s st =
     (let fin = select_eq (j_sex_column j) s (rows (j_input j)) in
      case j_disease_data j of
        None \<Rightarrow> tissue_loop fit j fin [] False s (j_tissue_types j) st
      | Some dd \<Rightarrow>
          (if j_sex_column j \<notin> set (columns dd) then (Some (KeyError (j_sex_column j)), st)
           else (let fdd = select_eq (j_sex_column j) s (rows dd) in
                 tissue_loop fit j fin fdd (fdd \<noteq> []) s (j_tissue_types j) st)))"

fun sex_loop ::
  "'v fitter \<Rightarrow> job \<Rightarrow> cell list \<Rightarrow> 'v loop_state \<Rightarrow> error option \<times> 'v loop_state"
where
  "sex_loop fit j [] st = (None, st)"
| "sex_loop fit j (s # ss) st =
     (case sex_iteration fit j s st of
        (Some e, st') \<Rightarrow> (Some e, st')
      | (None, st') \<Rightarrow> sex_loop fit j ss st')"

text \<open>\<^verbatim>\<open>compute_growth_curves\<close>: the plot, the loop, and the dict handed to
  \<^verbatim>\<open>pickle.dump\<close> when both are through.\<close>

record 'v outcome =
  raised :: "error option"
  histograms :: "hist_call list"
  final :: "'v loop_state"
  pickled :: "'v results option"

definition initial_state :: "'v loop_state" where
  "initial_state = \<lparr>results = [], result_var = None, calls = []\<rparr>"

definition compute_growth_curves :: "'v fitter \<Rightarrow> job \<Rightarrow> 'v outcome" where
  "compute_growth_curves fit j =
     (case age_distribution (j_input j) (j_sex_column j) (j_age_column j) (j_sex_labels j) of
        Inl e \<Rightarrow> \<lparr>raised = Some e, histograms = [], final = initial_state, pickled = None\<rparr>
      | Inr hs \<Rightarrow>
          (case sex_loop fit j (j_sex_labels j) initial_state of
             (Some e, st) \<Rightarrow> \<lparr>raised = Some e, histograms = hs, final = st, pickled = None\<rparr>
           | (None, st) \<Rightarrow>
               \<lparr>raised = None, histograms = hs, final = st, pickled = Some (results st)\<rparr>))"

section \<open>The parameter tables of the report\<close>

text \<open>
  How a value read from R is printed depends on its Python type, which the conversion layer
  decides: the three formatting expressions of the report are parameters, each giving the
  text or raising. \<open>fmt_aic\<close> stands for \<^verbatim>\<open>f"{float(v):.2f}"\<close>, \<open>fmt_coef\<close> for
  \<^verbatim>\<open>f"{float(v[0]):.6f}"\<close>, \<open>fmt_dist\<close> for \<^verbatim>\<open>str(v[0])\<close> and \<open>str_label\<close> for the
  sex label inside the header.
\<close>

record 'v formats =
  fmt_aic :: "'v \<Rightarrow> error + string"
  fmt_coef :: "'v \<Rightarrow> error + string"
  fmt_dist :: "'v \<Rightarrow> error + string"
  str_label :: "cell \<Rightarrow> string"

fun try_map :: "('a \<Rightarrow> error + 'b) \<Rightarrow> 'a list \<Rightarrow> error + 'b list" where
  "try_map f [] = Inr []"
| "try_map f (x # xs) =
     (case f x of
        Inl e \<Rightarrow> Inl e
      | Inr y \<Rightarrow> (case try_map f xs of Inl e \<Rightarrow> Inl e | Inr ys \<Rightarrow> Inr (y # ys)))"

text \<open>\<^verbatim>\<open>sorted(genders)\<close>: texts among themselves and numbers among themselves are
  ordered, a mix of the two raises. Up to one label nothing is compared.\<close>

definition py_sorted_cells :: "cell list \<Rightarrow> error + cell list" where
  "py_sorted_cells cs =
     (if length cs \<le> 1 then Inr cs
      else if list_all is_text cs
        then Inr (map S (sort (concat (map (\<lambda>c. case c of S x \<Rightarrow> [x] | _ \<Rightarrow> []) cs))))
      else if list_all is_number cs then Inr (map N (sort (numbers_of cs)))
      else Inl TypeError)"

text \<open>Lines 89--94: the sexes and the biomarkers of all tissues. The source collects them
  in sets; here they are lists without repetition.\<close>

definition all_genders :: "'v results \<Rightarrow> cell list" where
  "all_genders res = py_unique (concat (map (\<lambda>td. map fst (snd td)) res))"

definition all_biomarkers :: "'v results \<Rightarrow> string list" where
  "all_biomarkers res =
     py_unique (concat (map (\<lambda>td. concat (map (\<lambda>gd. map fst (snd gd)) (snd td))) res))"

text \<open>Lines 128--132: the parameters of one sex for the biomarker, \<open>None\<close> when the tissue
  has no such sex or the sex no such biomarker.\<close>

definition params_of ::
  "(cell \<times> (string \<times> 'v leaf) list) list \<Rightarrow> string \<Rightarrow> cell \<Rightarrow> 'v model_parameters option"
where
  "params_of tissue_data biomarker g =
     (case map_of tissue_data g of
        None \<Rightarrow> None
      | Some by_b \<Rightarrow> map_option model_params (map_of by_b biomarker))"

definition model_cell :: "'v model_parameters option \<Rightarrow> string" where
  "model_cell p = (case p of None \<Rightarrow> ''N/A'' | Some mp \<Rightarrow> model_type mp)"

definition aic_cell :: "'v formats \<Rightarrow> 'v model_parameters option \<Rightarrow> error + string" where
  "aic_cell fmts p =
     (case p of
        None \<Rightarrow> Inr ''N/A''
      | Some mp \<Rightarrow> (case aic mp of None \<Rightarrow> Inr ''N/A'' | Some v \<Rightarrow> fmt_aic fmts v))"

definition coef_cell ::
  "'v formats \<Rightarrow> string \<Rightarrow> 'v model_parameters option \<Rightarrow> error + string"
where
  "coef_cell fmts name p =
     (case p of
        None \<Rightarrow> Inr ''N/A''
      | Some mp \<Rightarrow>
          (case map_of (coefs mp) name of None \<Rightarrow> Inr ''N/A'' | Some v \<Rightarrow> fmt_coef fmts v))"

definition dist_cell ::
  "'v formats \<Rightarrow> ('v model_parameters \<Rightarrow> 'v option) \<Rightarrow> 'v model_parameters option \<Rightarrow> error + string"
where
  "dist_cell fmts sel p =
     (case p of
        None \<Rightarrow> Inr ''N/A''
      | Some mp \<Rightarrow> (case sel mp of None \<Rightarrow> Inr ''N/A'' | Some v \<Rightarrow> fmt_dist fmts v))"

text \<open>Lines 148--154: the coefficient names of all sexes, sorted.\<close>

definition coef_names :: "'v model_parameters option list \<Rightarrow> string list" where
  "coef_names ps =
     sort (remdups (concat (map (\<lambda>p. case p of None \<Rightarrow> [] | Some mp \<Rightarrow> map fst (coefs mp)) ps)))"

definition dist_params :: "(string \<times> ('v model_parameters \<Rightarrow> 'v option)) list" where
  "dist_params = [(''mu'', mu), (''sigma'', sigma), (''nu'', nu), (''tau'', tau)]"

definition labelled_row :: "string \<Rightarrow> error + string list \<Rightarrow> error + string list" where
  "labelled_row name r = (case r of Inl e \<Rightarrow> Inl e | Inr cs \<Rightarrow> Inr (name # cs))"

text \<open>Lines 124--171: the list of rows given to \<^verbatim>\<open>Table\<close>, or the first exception.\<close>

definition param_table ::
  "'v formats \<Rightarrow> cell list \<Rightarrow> (cell \<times> (string \<times> 'v leaf) list) list \<Rightarrow> string \<Rightarrow>
     error + string list list"
where
  "param_table fmts genders tissue_data biomarker =
     (case py_sorted_cells genders of
        Inl e \<Rightarrow> Inl e
      | Inr gs \<Rightarrow>
          (let ps = map (params_of tissue_data biomarker) gs;
               header = ''Parameter'' # map (\<lambda>g. ''Value ('' @ str_label fmts g @ '')'') gs;
               model_row = ''Best model family'' # map model_cell ps
           in case try_map (aic_cell fmts) ps of
                Inl e \<Rightarrow> Inl e
              | Inr aics \<Rightarrow>
                  (case try_map (\<lambda>name. labelled_row name (try_map (coef_cell fmts name) ps))
                          (coef_names ps) of
                     Inl e \<Rightarrow> Inl e
                   | Inr coef_rows \<Rightarrow>
                       (case try_map (\<lambda>d. labelled_row (fst d) (try_map (dist_cell fmts (snd d)) ps))
                               dist_params of
                          Inl e \<Rightarrow> Inl e
                        | Inr dist_rows \<Rightarrow>
                            Inr (header # model_row # (''AIC'' # aics) # coef_rows @ dist_rows)))))"

text \<open>Lines 97--171: one table for each tissue and each biomarker that some sex of the
  tissue has. The source walks a set of biomarkers, in an order Python does not fix; the
  paragraphs, images and page breaks around the tables are ReportLab's and are left out.\<close>

definition table_jobs ::
  "'v results \<Rightarrow> (string \<times> (cell \<times> (string \<times> 'v leaf) list) list \<times> string) list"
where
  "table_jobs res =
     concat (map (\<lambda>td.
       map (\<lambda>b. (fst td, snd td, b))
         (filter (\<lambda>b. list_ex (\<lambda>g. params_of (snd td) b g \<noteq> None) (all_genders res))
            (all_biomarkers res))) res)"

definition generate_output_report ::
  "'v formats \<Rightarrow> 'v results \<Rightarrow> error + (string \<times> string \<times> string list list) list"
where
  "generate_output_report fmts res =
     try_map (\<lambda>(tissue, tissue_data, b).
                case param_table fmts (all_genders res) tissue_data b of
                  Inl e \<Rightarrow> Inl e
                | Inr tab \<Rightarrow> Inr (tissue, b, tab))
       (table_jobs res)"

section \<open>\<^verbatim>\<open>main\<close>\<close>

text \<open>
  A run of the whole program: the exception that ended it, if any, the sex column it chose,
  the rows it kept, what \<^verbatim>\<open>compute_growth_curves\<close> did and the tables of the report.
  An uncaught exception ends a Python process with status 1, a return of \<^verbatim>\<open>main\<close>
  with status 0.
\<close>

record 'v run =
  failure :: "error option"
  chosen_sex_column :: "string option"
  kept_rows :: "row list"
  computed :: "'v outcome option"
  tables :: "(string \<times> string \<times> string list list) list"

definition exit_code :: "'v run \<Rightarrow> nat" where
  "exit_code r = (case failure r of None \<Rightarrow> 0 | Some _ \<Rightarrow> 1)"

definition attempted :: "'v run \<Rightarrow> fit_call list" where
  "attempted r = (case computed r of None \<Rightarrow> [] | Some out \<Rightarrow> calls (final out))"

definition abort :: "error \<Rightarrow> string option \<Rightarrow> 'v run" where
  "abort e sexc =
     \<lparr>failure = Some e, chosen_sex_column = sexc, kept_rows = [], computed = None, tables = []\<rparr>"

definition make_job ::
  "args \<Rightarrow> frame \<Rightarrow> (string \<times> string) list option \<Rightarrow> string \<Rightarrow> (string \<times> string) list \<Rightarrow> job"
where
  "make_job a df dmap sexc found =
     (let kept = dropna (required_columns sexc found) (rows df) in
      \<lparr>j_input = df\<lparr>rows := kept\<rparr>,
       j_biomarkers = map fst found,
       j_biomarker_tissue_map = make_biomarker_tissue_map found,
       j_tissue_types = tissue_types_of a,
       j_sex_column = sexc,
       j_sex_labels = unique_sex_labels sexc kept,
       j_age_column = age_col a,
       j_disease_data = disease_frame a,
       j_disease_tissue_map = dmap,
       j_smoothing = smoothing a\<rparr>)"

definition main :: "'v formats \<Rightarrow> 'v fitter \<Rightarrow> bool \<Rightarrow> args \<Rightarrow> frame \<Rightarrow> 'v run" where
  "main fmts fit r_installed a df0 =
     (case group_filter (group_arg a) df0 of
        Inl e \<Rightarrow> abort e None
      | Inr df \<Rightarrow>
     (case load_disease (biomarker_types a) (disease_frame a) of
        Inl e \<Rightarrow> abort e None
      | Inr dmap \<Rightarrow>
     (case find_sex_column (columns df) of
        Inl e \<Rightarrow> abort e None
      | Inr sexc \<Rightarrow>
     (let found = found_columns (tissue_types_of a) (biomarker_types a) df in
      if found = [] then abort no_biomarker_columns (Some sexc)
      else
        (let j = make_job a df dmap sexc found in
         case check_r_installed r_installed of
           Inl e \<Rightarrow> (abort e (Some sexc))\<lparr>kept_rows := rows (j_input j)\<rparr>
         | Inr _ \<Rightarrow>
             (let out = compute_growth_curves fit j in
              case pickled out of
                None \<Rightarrow>
                  \<lparr>failure = raised out, chosen_sex_column = Some sexc,
                   kept_rows = rows (j_input j), computed = Some out, tables = []\<rparr>
              | Some res \<Rightarrow>
                  (case generate_output_report fmts res of
                     Inl e \<Rightarrow>
                       \<lparr>failure = Some e, chosen_sex_column = Some sexc,
                        kept_rows = rows (j_input j), computed = Some out, tables = []\<rparr>
                   | Inr tabs \<Rightarrow>
                       \<lparr>failure = None, chosen_sex_column = Some sexc,
                        kept_rows = rows (j_input j), computed = Some out,
                        tables = tabs\<rparr>)))))))"

section \<open>Notions used to state the properties\<close>

text \<open>A column name mentions the sex when its lowered form contains one of the two words
  as a contiguous block.\<close>

definition mentions_sex :: "string \<Rightarrow> bool" where
  "mentions_sex col = (sublist ''sex'' (py_lower col) \<or> sublist ''gender'' (py_lower col))"

text \<open>The number of bins of each histogram drawn, none when the plot raises.\<close>

definition bins_per_histogram :: "error + hist_call list \<Rightarrow> nat list" where
  "bins_per_histogram r =
     (case r of Inl e \<Rightarrow> [] | Inr hs \<Rightarrow> map (\<lambda>h. bin_count (h_bins h)) hs)"

text \<open>What a run leaves behind: the biomarkers of its fitting calls, in order, and the model
  family stored at \<^verbatim>\<open>results[t][s][b]\<close>, if any.\<close>

definition fitted_biomarkers :: "'v run \<Rightarrow> string list" where
  "fitted_biomarkers r = map column_y (attempted r)"

definition stored_model_type :: "'v run \<Rightarrow> string \<Rightarrow> cell \<Rightarrow> string \<Rightarrow> string option" where
  "stored_model_type r t s b =
     (case computed r of
        None \<Rightarrow> None
      | Some out \<Rightarrow>
          map_option (\<lambda>l. model_type (model_params l)) (lookup3 (results (final out)) t s b))"

text \<open>No leaf anywhere in the nested dict.\<close>

definition no_leaves :: "'v results \<Rightarrow> bool" where
  "no_leaves res = list_all (\<lambda>td. list_all (\<lambda>gd. snd gd = []) (snd td)) res"

section \<open>Example inputs\<close>

text \<open>A small observation table: four subjects, one without sex and one without the
  biomarker value.\<close>

definition demo_frame :: frame where
  "demo_frame = \<lparr>columns = [''ID'', ''Age'', ''Sex'', ''WM_FA''],
     rows = [[(''ID'', N 1), (''Age'', N 10), (''Sex'', S ''F''), (''WM_FA'', N 3)],
             [(''ID'', N 2), (''Age'', N 80), (''Sex'', S ''M''), (''WM_FA'', N 4)],
             [(''ID'', N 3), (''Age'', N 45), (''Sex'', NA), (''WM_FA'', N 4)],
             [(''ID'', N 4), (''Age'', N 50), (''Sex'', S ''M''), (''WM_FA'', NA)]]\<rparr>"

definition demo_args :: args where
  "demo_args = \<lparr>tissue_types_arg = [''WM''], age_col = ''Age'', biomarker_types = [''FA''],
     group_arg = [], smoothing = False, disease_frame = None\<rparr>"

definition plain_formats :: "rat formats" where
  "plain_formats = \<lparr>fmt_aic = (\<lambda>v. Inr ''aic''), fmt_coef = (\<lambda>v. Inr ''coef''),
     fmt_dist = (\<lambda>v. Inr ''dist''), str_label = (\<lambda>c. case c of S x \<Rightarrow> x | _ \<Rightarrow> ''?'')\<rparr>"

definition always_raises :: "rat fitter" where
  "always_raises = (\<lambda>_ _. Raises)"

text \<open>Ages from 10 to 80 over two sexes.\<close>

definition ages_frame :: frame where
  "ages_frame = \<lparr>columns = [''Age'', ''Sex''],
     rows = [[(''Age'', N 10), (''Sex'', S ''F'')],
             [(''Age'', N 45), (''Sex'', S ''M'')],
             [(''Age'', N 80), (''Sex'', S ''F'')]]\<rparr>"

text \<open>A table with four sexes, and the call of \<^verbatim>\<open>compute_growth_curves\<close> that
  \<^verbatim>\<open>main\<close> makes for it.\<close>

definition four_frame :: frame where
  "four_frame = \<lparr>columns = [''Age'', ''Sex'', ''WM_FA''],
     rows = [[(''Age'', N 10), (''Sex'', S ''F''), (''WM_FA'', N 1)],
             [(''Age'', N 45), (''Sex'', S ''M''), (''WM_FA'', N 2)],
             [(''Age'', N 50), (''Sex'', S ''X''), (''WM_FA'', N 3)],
             [(''Age'', N 80), (''Sex'', S ''U''), (''WM_FA'', N 4)]]\<rparr>"

definition four_job :: job where
  "four_job = \<lparr>j_input = four_frame, j_biomarkers = [''WM_FA''],
     j_biomarker_tissue_map = [(''WM_FA'', ''WM'')], j_tissue_types = [''WM''],
     j_sex_column = ''Sex'', j_sex_labels = [S ''F'', S ''M'', S ''X'', S ''U''],
     j_age_column = ''Age'', j_disease_data = None, j_disease_tissue_map = None,
     j_smoothing = False\<rparr>"

text \<open>One tissue of the results: the biomarker was fitted for \<open>F\<close> and not for \<open>M\<close>, with
  a model family that has no \<open>nu\<close> and no \<open>tau\<close>; and its table.\<close>

definition demo_leaf :: "rat leaf" where
  "demo_leaf = \<lparr>model_params = \<lparr>model_type = ''NO'', aic = Some 100, mu = Some 1,
       sigma = Some 2, nu = None, tau = None, coefs = [(''b'', 3), (''a'', 4)]\<rparr>,
     centiles = []\<rparr>"

definition demo_tissue_data :: "(cell \<times> (string \<times> rat leaf) list) list" where
  "demo_tissue_data = [(S ''M'', []), (S ''F'', [(''WM_FA'', demo_leaf)])]"

definition demo_table :: "string list list" where
  "demo_table =
     [[''Parameter'', ''Value (F)'', ''Value (M)''],
      [''Best model family'', ''NO'', ''N/A''],
      [''AIC'', ''aic'', ''N/A''],
      [''a'', ''coef'', ''N/A''],
      [''b'', ''coef'', ''N/A''],
      [''mu'', ''dist'', ''N/A''],
      [''sigma'', ''dist'', ''N/A''],
      [''nu'', ''N/A'', ''N/A''],
      [''tau'', ''N/A'', ''N/A'']]"

text \<open>
  A run with disease data. The observation table has the biomarkers \<open>WM_MD\<close> and \<open>WM_FA\<close>
  for one sex; the disease table has one patient of that sex, whose only biomarker column
  \<open>GM_FA\<close> is empty. The fitter \<open>echo_fitter\<close> succeeds on every call and labels the model
  with the biomarker it was called for; \<open>fails_on_md\<close> differs from it in raising on the
  calls for \<open>WM_MD\<close>.
\<close>

definition bug_frame :: frame where
  "bug_frame = \<lparr>columns = [''Age'', ''Sex'', ''WM_MD'', ''WM_FA''],
     rows = [[(''Age'', N 30), (''Sex'', S ''F''), (''WM_MD'', N 1), (''WM_FA'', N 2)],
             [(''Age'', N 40), (''Sex'', S ''F''), (''WM_MD'', N 3), (''WM_FA'', N 4)]]\<rparr>"

definition bug_disease :: frame where
  "bug_disease = \<lparr>columns = [''Age'', ''Sex'', ''GM_FA''],
     rows = [[(''Age'', N 60), (''Sex'', S ''F''), (''GM_FA'', NA)]]\<rparr>"

definition bug_args :: args where
  "bug_args = \<lparr>tissue_types_arg = [''WM''], age_col = ''Age'',
     biomarker_types = [''MD'', ''FA''], group_arg = [], smoothing = False,
     disease_frame = Some bug_disease\<rparr>"

definition echo_fitter :: "rat fitter" where
  "echo_fitter = (\<lambda>history c. Returns (Readable
     \<lparr>model_params = \<lparr>model_type = column_y c, aic = None, mu = None, sigma = None,
        nu = None, tau = None, coefs = []\<rparr>, centiles = []\<rparr>))"

definition fails_on_md :: "rat fitter" where
  "fails_on_md = (\<lambda>history c. if column_y c = ''WM_MD'' then Raises else echo_fitter history c)"

text \<open>The same run asked for the biomarker type \<open>FA\<close> alone.\<close>

definition bug_args_fa :: args where
  "bug_args_fa = bug_args\<lparr>biomarker_types := [''FA'']\<rparr>"

text \<open>The table with four sexes asked for an age column it does not have, and with an age
  that is a text.\<close>

definition demo_args_other_age :: args where
  "demo_args_other_age = demo_args\<lparr>age_col := ''Age_yrs''\<rparr>"

definition four_frame_text_age :: frame where
  "four_frame_text_age = \<lparr>columns = [''Age'', ''Sex'', ''WM_FA''],
     rows = [[(''Age'', S ''ten''), (''Sex'', S ''F''), (''WM_FA'', N 1)],
             [(''Age'', N 45), (''Sex'', S ''M''), (''WM_FA'', N 2)],
             [(''Age'', N 50), (''Sex'', S ''X''), (''WM_FA'', N 3)],
             [(''Age'', N 80), (''Sex'', S ''U''), (''WM_FA'', N 4)]]\<rparr>"

definition four_job_other_age :: job where
  "four_job_other_age = four_job\<lparr>j_age_column := ''Age_yrs''\<rparr>"

definition four_job_text_age :: job where
  "four_job_text_age = four_job\<lparr>j_input := four_frame_text_age\<rparr>"

text \<open>The small observation table asked for a tissue it has no column of.\<close>

definition demo_args_gm :: args where
  "demo_args_gm = demo_args\<lparr>tissue_types_arg := [''GM'']\<rparr>"

section \<open>Strings\<close>

lemma py_in_sublist: "py_in sub s \<longleftrightarrow> sublist sub s"
  by (induction s) (auto simp: sublist_Cons_right)

lemma py_split_not_Nil: "py_split d s \<noteq> []"
  by (induction s) (auto simp: Let_def)

lemma py_split_no_sep: "d \<notin> set s \<Longrightarrow> py_split d s = [s]"
  by (induction s) (auto simp: Let_def)

lemma length_py_split_sep: "2 \<le> length (py_split d (pre @ d # ty))"
  by (induction pre) (auto simp: Let_def py_split_not_Nil Suc_le_eq)

lemma last_py_split_tail:
  "last (py_split d (pre @ d # ty)) = last (py_split d ty)"
proof (induction pre)
  case Nil
  then show ?case by (simp add: py_split_not_Nil)
next
  case (Cons c pre)
  let ?r = "py_split d (pre @ d # ty)"
  have "tl ?r \<noteq> []"
    using length_py_split_sep[of d pre ty] by (cases ?r) auto
  then have "last ((c # hd ?r) # tl ?r) = last ?r"
    by (cases ?r) auto
  with Cons show ?case by (auto simp: Let_def py_split_not_Nil)
qed

lemma py_split_single: "length (py_split d s) = 1 \<Longrightarrow> py_split d s = [s]"
proof (induction s)
  case Nil
  then show ?case by simp
next
  case (Cons c s)
  have ne: "py_split d s \<noteq> []" by (rule py_split_not_Nil)
  show ?case
  proof (cases "c = d")
    case True
    with Cons.prems ne show ?thesis by (simp add: Let_def)
  next
    case False
    with Cons.prems ne have "length (py_split d s) = 1"
      by (cases "py_split d s") (auto simp: Let_def)
    from Cons.IH[OF this] False show ?thesis by (simp add: Let_def)
  qed
qed

lemma suffix_last_py_split: "suffix (last (py_split d s)) s"
proof (induction s)
  case Nil
  then show ?case by simp
next
  case (Cons c s)
  let ?r = "py_split d s"
  have ne: "?r \<noteq> []" by (rule py_split_not_Nil)
  show ?case
  proof (cases "c = d")
    case True
    with ne Cons show ?thesis by (simp add: Let_def suffix_ConsI)
  next
    case False
    show ?thesis
    proof (cases "tl ?r = []")
      case True
      with ne have "length ?r = 1" by (cases ?r) auto
      then have "?r = [s]" by (rule py_split_single)
      with False show ?thesis by (simp add: Let_def)
    next
      case tl: False
      then have "last ((c # hd ?r) # tl ?r) = last ?r" using ne by (cases ?r) auto
      with False Cons show ?thesis by (simp add: Let_def suffix_ConsI)
    qed
  qed
qed

lemma find_first:
  "List.find P xs = Some x \<longleftrightarrow>
     (\<exists>pre post. xs = pre @ x # post \<and> P x \<and> (\<forall>y\<in>set pre. \<not> P y))"
proof (induction xs)
  case Nil
  then show ?case by simp
next
  case (Cons a xs)
  show ?case
  proof (cases "P a")
    case True
    then show ?thesis
      by (auto simp: Cons_eq_append_conv)
  next
    case False
    then show ?thesis
      using Cons by (auto simp: Cons_eq_append_conv) (metis set_ConsD)+
  qed
qed

section \<open>The disease columns of a biomarker\<close>

text \<open>
  Claim C1, as the specification has it: for the disease columns \<open>GM_FA\<close> and \<open>WM_FA\<close> and
  the biomarker key \<open>WM_FA\<close> only \<open>WM_FA\<close> is selected. The source selects both: the
  test of lines 149--150 looks for the last segment of the key anywhere in the column name
  and never reads the tissue.
\<close>

theorem disease_cols_tissue_counterexample:
  "disease_cols [''GM_FA'', ''WM_FA''] ''WM_FA'' = [''GM_FA'', ''WM_FA'']
     \<and> disease_cols [''GM_FA'', ''WM_FA''] ''WM_FA'' \<noteq> [''WM_FA'']"
  by (simp add: disease_cols_def last_segment_def)

text \<open>
  Claim C1, amended: for a biomarker key \<open>tissue_type\<close>, whatever the type, every disease
  column that ends in \<open>_type\<close> is selected, whatever its tissue; so for the disease columns
  \<open>GM_FA\<close> and \<open>WM_FA\<close> and the key \<open>WM_FA\<close> both are selected.
\<close>

theorem disease_cols_suffix_match:
  assumes "col \<in> set dkeys" and "ends_with_type col ty"
  shows "col \<in> set (disease_cols dkeys (tissue @ ''_'' @ ty))"
proof -
  have seg: "last_segment (tissue @ ''_'' @ ty) = last_segment ty"
    using last_py_split_tail[of "CHR ''_''" tissue ty] by (simp add: last_segment_def)
  have "suffix (last_segment ty) ty"
    unfolding last_segment_def by (rule suffix_last_py_split)
  moreover have "suffix ty col"
    using assms(2) unfolding ends_with_type_def by (rule suffix_ConsD)
  ultimately have "suffix (last_segment ty) col" by (rule suffix_order.trans)
  then have "sublist (last_segment ty) col" by (rule suffix_imp_sublist)
  with assms(1) seg show ?thesis by (simp add: disease_cols_def py_in_sublist)
qed

theorem disease_cols_suffix_match_witness:
  "''Tumour_Damage_Micro'' \<in> set [''Tumour_Damage_Micro'', ''Edema_Intensity'']
     \<and> ends_with_type ''Tumour_Damage_Micro'' ''Damage_Micro''
     \<and> ''Tumour_Damage_Micro''
          \<in> set (disease_cols [''Tumour_Damage_Micro'', ''Edema_Intensity'']
                   (''WM'' @ ''_'' @ ''Damage_Micro''))"
proof -
  have i: "''Tumour_Damage_Micro'' \<in> set [''Tumour_Damage_Micro'', ''Edema_Intensity'']"
    by simp
  have e: "ends_with_type ''Tumour_Damage_Micro'' ''Damage_Micro''" by code_simp
  from disease_cols_suffix_match[OF i e, of "''WM''"] i e show ?thesis by blast
qed

section \<open>The sex column\<close>

lemma is_sex_name_iff: "is_sex_name col = mentions_sex col"
  by (simp add: is_sex_name_def mentions_sex_def py_in_sublist)

lemma mentions_sex_not_Nil: "mentions_sex col \<Longrightarrow> col \<noteq> []"
  by (auto simp: mentions_sex_def py_lower_def)

lemma find_sex_column_Inr:
  "find_sex_column cols = Inr col \<longleftrightarrow>
     (\<exists>pre post. cols = pre @ col # post \<and> mentions_sex col
        \<and> (\<forall>c\<in>set pre. \<not> mentions_sex c))"
proof -
  have "find_sex_column cols = Inr col \<longleftrightarrow>
      List.find is_sex_name cols = Some col \<and> col \<noteq> []"
    by (auto simp: find_sex_column_def split: option.splits)
  also have "\<dots> \<longleftrightarrow> (\<exists>pre post. cols = pre @ col # post \<and> mentions_sex col
      \<and> (\<forall>c\<in>set pre. \<not> mentions_sex c))"
    unfolding find_first is_sex_name_iff using mentions_sex_not_Nil by blast
  finally show ?thesis .
qed

lemma find_sex_column_Inl:
  "find_sex_column cols = Inl e \<longleftrightarrow> e = no_sex_column \<and> \<not> list_ex mentions_sex cols"
proof -
  have "List.find is_sex_name cols \<noteq> Some []"
    unfolding find_first is_sex_name_iff using mentions_sex_not_Nil by blast
  then have "find_sex_column cols = Inl e \<longleftrightarrow>
      e = no_sex_column \<and> List.find is_sex_name cols = None"
    by (auto simp: find_sex_column_def split: option.splits)
  then show ?thesis
    by (auto simp: find_None_iff is_sex_name_iff list_ex_iff)
qed

lemma group_filter_columns: "group_filter g df0 = Inr df \<Longrightarrow> columns df = columns df0"
  by (auto simp: group_filter_def split: if_splits)

text \<open>
  Claim C10, as the specification has it: \<^verbatim>\<open>main\<close> raises a ValueError exactly when no
  column name mentions the sex. Asked for the tissue \<open>GM\<close>, the small observation table
  passes the cohort filter and the disease step and has the column \<open>Sex\<close>, and
  \<^verbatim>\<open>main\<close> raises the ValueError of line 343.
\<close>

theorem value_error_with_sex_column_counterexample:
  "group_filter (group_arg demo_args_gm) demo_frame = Inr demo_frame
   \<and> load_disease (biomarker_types demo_args_gm) (disease_frame demo_args_gm) = Inr None
   \<and> list_ex mentions_sex (columns demo_frame)
   \<and> chosen_sex_column (main plain_formats echo_fitter True demo_args_gm demo_frame)
        = Some ''Sex''
   \<and> failure (main plain_formats echo_fitter True demo_args_gm demo_frame)
        = Some (ValueError
            ''None of the expected biomarker columns were found in the input data'')"
proof -
  have g: "group_filter (group_arg demo_args_gm) demo_frame = Inr demo_frame"
    by (simp add: group_filter_def demo_args_gm_def demo_args_def)
  have d: "load_disease (biomarker_types demo_args_gm) (disease_frame demo_args_gm) = Inr None"
    by (simp add: load_disease_def demo_args_gm_def demo_args_def)
  have m: "list_ex mentions_sex (columns demo_frame)" by code_simp
  have c: "chosen_sex_column (main plain_formats echo_fitter True demo_args_gm demo_frame)
      = Some ''Sex''"
    by code_simp
  have f: "failure (main plain_formats echo_fitter True demo_args_gm demo_frame)
      = Some (ValueError
          ''None of the expected biomarker columns were found in the input data'')"
    by code_simp
  from g d m c f show ?thesis by simp
qed

text \<open>
  Claim C10, amended: once the cohort filter and the disease step (lines 291--320) are
  through, \<^verbatim>\<open>main\<close> ends with the ValueError of line 326, nothing chosen and nothing else
  done, exactly when no column name mentions the sex; and when some column does, the column
  it chooses is the first such column in column order.
\<close>

theorem main_sex_column:
  assumes "group_filter (group_arg a) df0 = Inr df"
      and "load_disease (biomarker_types a) (disease_frame a) = Inr dmap"
  shows "(main fmts fit r_installed a df0 = abort no_sex_column None
            \<longleftrightarrow> \<not> list_ex mentions_sex (columns df0))
       \<and> (\<forall>pre col post.
            columns df0 = pre @ col # post \<and> mentions_sex col \<and> \<not> list_ex mentions_sex pre \<longrightarrow>
            chosen_sex_column (main fmts fit r_installed a df0) = Some col)"
proof -
  have cols: "columns df = columns df0"
    using assms(1) by (rule group_filter_columns)
  have none: "main fmts fit r_installed a df0 = abort no_sex_column None"
    if "\<not> list_ex mentions_sex (columns df0)"
  proof -
    from that have "find_sex_column (columns df) = Inl no_sex_column"
      by (simp add: find_sex_column_Inl cols)
    then show ?thesis using assms by (simp add: main_def)
  qed
  have some: "chosen_sex_column (main fmts fit r_installed a df0) = Some col"
    if "columns df0 = pre @ col # post" "mentions_sex col" "\<not> list_ex mentions_sex pre"
    for pre col post
  proof -
    from that have "find_sex_column (columns df) = Inr col"
      unfolding find_sex_column_Inr cols by (auto simp: list_ex_iff)
    then show ?thesis using assms
      by (simp add: main_def Let_def abort_def check_r_installed_def
          split: option.splits sum.splits)
  qed
  have iff: "main fmts fit r_installed a df0 = abort no_sex_column None
      \<longleftrightarrow> \<not> list_ex mentions_sex (columns df0)"
  proof
    assume n: "main fmts fit r_installed a df0 = abort no_sex_column None"
    show "\<not> list_ex mentions_sex (columns df0)"
    proof
      assume "list_ex mentions_sex (columns df0)"
      then have "\<exists>x\<in>set (columns df0). mentions_sex x" by (simp add: list_ex_iff)
      from split_list_first_prop[OF this] obtain pre col post where
        "columns df0 = pre @ col # post" "mentions_sex col" "\<forall>y\<in>set pre. \<not> mentions_sex y"
        by blast
      then have "chosen_sex_column (main fmts fit r_installed a df0) = Some col"
        using some[of pre col post] by (simp add: list_ex_iff)
      with n show False by (simp add: abort_def)
    qed
  next
    assume "\<not> list_ex mentions_sex (columns df0)"
    then show "main fmts fit r_installed a df0 = abort no_sex_column None"
      by (rule none)
  qed
  from some iff show ?thesis by blast
qed

theorem main_sex_column_witness:
  "group_filter (group_arg demo_args) demo_frame = Inr demo_frame
     \<and> load_disease (biomarker_types demo_args) (disease_frame demo_args) = Inr None
     \<and> columns demo_frame = [''ID'', ''Age''] @ ''Sex'' # [''WM_FA'']
     \<and> mentions_sex ''Sex'' \<and> \<not> list_ex mentions_sex [''ID'', ''Age'']
     \<and> chosen_sex_column (main plain_formats always_raises True demo_args demo_frame)
         = Some ''Sex''
     \<and> main plain_formats always_raises True demo_args demo_frame
         \<noteq> abort no_sex_column None"
proof -
  have g: "group_filter (group_arg demo_args) demo_frame = Inr demo_frame"
    by (simp add: group_filter_def demo_args_def)
  have d: "load_disease (biomarker_types demo_args) (disease_frame demo_args) = Inr None"
    by (simp add: load_disease_def demo_args_def)
  have c: "columns demo_frame = [''ID'', ''Age''] @ ''Sex'' # [''WM_FA'']"
    by (simp add: demo_frame_def)
  have m: "mentions_sex ''Sex''" by code_simp
  have n: "\<not> list_ex mentions_sex [''ID'', ''Age'']" by code_simp
  have l: "list_ex mentions_sex (columns demo_frame)" by code_simp
  note t = main_sex_column[OF g d, of plain_formats always_raises True]
  from t c m n
  have s: "chosen_sex_column (main plain_formats always_raises True demo_args demo_frame)
      = Some ''Sex''"
    by blast
  from t l
  have r: "main plain_formats always_raises True demo_args demo_frame
      \<noteq> abort no_sex_column None"
    by blast
  from g d c m n s r show ?thesis by blast
qed

section \<open>The age-distribution plot: properties\<close>

lemma length_linspace: "length (linspace lo hi n) = n"
  by (auto simp: linspace_def split: option.splits)

lemma bin_count_linspace: "bin_count (linspace lo hi 30) = 29"
  by (simp add: bin_count_def length_linspace)

lemma linspace_nth:
  "i < n \<Longrightarrow> linspace (Some a) (Some b) n ! i =
     (if i = 0 then Exact (Some a) else if Suc i = n then Exact (Some b) else Rounded a b i n)"
  by (simp add: linspace_def)

lemma linspace_ends:
  "hd (linspace (Some a) (Some b) 30) = Exact (Some a)
   \<and> last (linspace (Some a) (Some b) 30) = Exact (Some b)"
proof -
  have ne: "linspace (Some a) (Some b) 30 \<noteq> []"
    using length_linspace[of "Some a" "Some b" 30] by auto
  show ?thesis
    using linspace_nth[of 0 30 a b] linspace_nth[of 29 30 a b] ne
    by (simp add: hd_conv_nth last_conv_nth length_linspace)
qed

lemma series_min_Min:
  "series_min cs = Some (Min (set (numbers_of cs)))" if "numbers_of cs \<noteq> []"
proof (cases "numbers_of cs")
  case Nil
  then show ?thesis using that by simp
next
  case (Cons r rs)
  then show ?thesis using Min.set_eq_fold[of r rs] by (simp add: series_min_def)
qed

lemma series_max_Max:
  "series_max cs = Some (Max (set (numbers_of cs)))" if "numbers_of cs \<noteq> []"
proof (cases "numbers_of cs")
  case Nil
  then show ?thesis using that by simp
next
  case (Cons r rs)
  then show ?thesis using Max.set_eq_fold[of r rs] by (simp add: series_max_def)
qed

lemma hist_loop_props:
  assumes "hist_loop rs sexc agec bins i labels = Inr hs"
  shows "map h_gender hs = labels \<and> (\<forall>h\<in>set hs. h_bins h = bins
      \<and> h_count h = length (filter (\<lambda>r. getc r sexc = h_gender h) rs)
      \<and> h_ages h = map (\<lambda>r. getc r agec) (filter (\<lambda>r. getc r sexc = h_gender h) rs))"
  using assms
proof (induction labels arbitrary: i hs)
  case Nil
  then show ?case by simp
next
  case (Cons g gs)
  from Cons.prems have ne: "select_eq sexc g rs \<noteq> []"
    by (auto simp: Let_def split: if_splits)
  then have "g \<noteq> NA" by (auto simp: select_eq_def cell_eq_def filter_empty_conv)
  then have sel: "select_eq sexc g rs = filter (\<lambda>r. getc r sexc = g) rs"
    by (auto simp: select_eq_def cell_eq_def intro: filter_cong)
  from Cons.prems ne obtain hs' where
    hs': "hist_loop rs sexc agec bins (Suc i) gs = Inr hs'"
    and hs: "hs = \<lparr>h_ages = map (\<lambda>r. getc r agec) (select_eq sexc g rs), h_bins = bins,
        h_gender = g, h_count = length (select_eq sexc g rs), h_color = colors ! i\<rparr> # hs'"
    by (auto simp: Let_def split: if_splits sum.splits)
  from Cons.IH[OF hs'] show ?case unfolding hs by (simp add: sel)
qed

lemma hist_loop_index_error:
  assumes "\<forall>g\<in>set labels. select_eq sexc g rs \<noteq> []" and "3 < i + length labels"
    and "i \<le> 3"
  shows "hist_loop rs sexc agec bins i labels = Inl IndexError"
  using assms
proof (induction labels arbitrary: i)
  case Nil
  then show ?case by simp
next
  case (Cons g gs)
  show ?case
  proof (cases "3 \<le> i")
    case True
    with Cons.prems show ?thesis by (simp add: colors_def)
  next
    case False
    with Cons.prems have "3 < Suc i + length gs" "Suc i \<le> 3" by simp_all
    with Cons.IH[of "Suc i"] Cons.prems have "hist_loop rs sexc agec bins (Suc i) gs = Inl IndexError"
      by simp
    with False Cons.prems show ?thesis by (simp add: colors_def)
  qed
qed

lemma set_py_unique: "set (py_unique xs) = set xs"
  by (induction xs) auto

lemma distinct_py_unique: "distinct (py_unique xs)"
  by (induction xs) (auto simp: set_py_unique)


text \<open>
  Claim C5, as the specification has it: the histograms share 30 bins. At ages from 10 to
  80 over two sexes each histogram has 29: \<^verbatim>\<open>np.linspace(min, max, 30)\<close> gives 30
  edges.
\<close>

theorem thirty_bins_counterexample:
  "bins_per_histogram (age_distribution ages_frame ''Sex'' ''Age'' [S ''F'', S ''M'']) = [29, 29]
   \<and> bins_per_histogram (age_distribution ages_frame ''Sex'' ''Age'' [S ''F'', S ''M''])
        \<noteq> [30, 30]"
  by code_simp

text \<open>
  Claim C5, amended: whenever the plot is drawn, there is one histogram for each sex label,
  in order; all of them get the same sequence of 30 edges, the points of
  \<^verbatim>\<open>np.linspace\<close> over the ages of the whole table, hence 29 bins and not 30; when some
  age is known the first edge is the smallest and the last edge the largest age of the whole
  table; and the count in the legend of a sex is the number of rows of that sex. The width
  of a bin is a matter of floating-point rounding and is not stated.
\<close>

theorem age_distribution_common_bins:
  assumes "age_distribution df sexc agec labels = Inr hs"
  shows "map h_gender hs = labels
    \<and> (\<forall>h\<in>set hs.
          h_bins h = linspace (series_min (map (\<lambda>r. getc r agec) (rows df)))
                       (series_max (map (\<lambda>r. getc r agec) (rows df))) 30
        \<and> length (h_bins h) = 30
        \<and> bin_count (h_bins h) = 29
        \<and> h_count h = length (filter (\<lambda>r. getc r sexc = h_gender h) (rows df)))
    \<and> (numbers_of (map (\<lambda>r. getc r agec) (rows df)) \<noteq> [] \<longrightarrow>
         (\<forall>h\<in>set hs.
            hd (h_bins h)
              = Exact (Some (Min (set (numbers_of (map (\<lambda>r. getc r agec) (rows df))))))
          \<and> last (h_bins h)
              = Exact (Some (Max (set (numbers_of (map (\<lambda>r. getc r agec) (rows df))))))))"
proof -
  let ?A = "map (\<lambda>r. getc r agec) (rows df)"
  let ?bins = "linspace (series_min ?A) (series_max ?A) 30"
  from assms have loop: "hist_loop (rows df) sexc agec ?bins 0 labels = Inr hs"
    by (auto simp: age_distribution_def Let_def split: if_splits)
  note props = hist_loop_props[OF loop]
  have bins: "h_bins h = ?bins" if "h \<in> set hs" for h using props that by blast
  have ends: "hd ?bins = Exact (Some (Min (set (numbers_of ?A))))
      \<and> last ?bins = Exact (Some (Max (set (numbers_of ?A))))"
    if ne: "numbers_of ?A \<noteq> []"
    unfolding series_min_Min[OF ne] series_max_Max[OF ne] by (rule linspace_ends)
  show ?thesis
    using props bins ends by (simp add: bin_count_linspace length_linspace)
qed

theorem age_distribution_common_bins_witness:
  "age_distribution ages_frame ''Sex'' ''Age'' [S ''F'', S ''M'']
      = Inr (projr (age_distribution ages_frame ''Sex'' ''Age'' [S ''F'', S ''M'']))
   \<and> map h_gender (projr (age_distribution ages_frame ''Sex'' ''Age'' [S ''F'', S ''M'']))
      = [S ''F'', S ''M'']
   \<and> numbers_of (map (\<lambda>r. getc r ''Age'') (rows ages_frame)) \<noteq> []"
proof -
  have "\<not> isl (age_distribution ages_frame ''Sex'' ''Age'' [S ''F'', S ''M''])"
    by code_simp
  then have ok: "age_distribution ages_frame ''Sex'' ''Age'' [S ''F'', S ''M'']
      = Inr (projr (age_distribution ages_frame ''Sex'' ''Age'' [S ''F'', S ''M'']))"
    by (cases "age_distribution ages_frame ''Sex'' ''Age'' [S ''F'', S ''M'']") auto
  have ne: "numbers_of (map (\<lambda>r. getc r ''Age'') (rows ages_frame)) \<noteq> []"
    by code_simp
  from age_distribution_common_bins[OF ok] ok ne show ?thesis by blast
qed

text \<open>
  Claim C9, as the specification has it: with more than three distinct sex labels
  \<^verbatim>\<open>compute_growth_curves\<close> raises IndexError. The table with four sexes, asked for an
  age column it does not have, ends with the KeyError of line 104, and with an age that is
  a text with the TypeError of lines 104--105; neither run reaches line 113.
\<close>

theorem four_labels_other_error_counterexample:
  "j_sex_labels four_job_other_age
      = unique_sex_labels (j_sex_column four_job_other_age) (rows (j_input four_job_other_age))
   \<and> length (j_sex_labels four_job_other_age) = 4
   \<and> raised (compute_growth_curves echo_fitter four_job_other_age)
        = Some (KeyError ''Age_yrs'')
   \<and> j_sex_labels four_job_text_age
      = unique_sex_labels (j_sex_column four_job_text_age) (rows (j_input four_job_text_age))
   \<and> length (j_sex_labels four_job_text_age) = 4
   \<and> raised (compute_growth_curves echo_fitter four_job_text_age) = Some TypeError
   \<and> failure (main plain_formats echo_fitter True demo_args_other_age four_frame)
        = Some (KeyError ''Age_yrs'')
   \<and> failure (main plain_formats echo_fitter True demo_args four_frame_text_age)
        = Some TypeError"
  by code_simp

text \<open>
  Claim C9, amended: for a table that has the sex column and the age column asked for, with
  numeric ages and no missing sex, called with the distinct labels of its sex column,
  \<^verbatim>\<open>compute_growth_curves\<close> raises IndexError as soon as there are more than three
  labels; no fitting call has been made and nothing is saved.
\<close>

theorem more_than_three_labels:
  assumes "j_sex_column j \<in> set (columns (j_input j))"
      and "j_age_column j \<in> set (columns (j_input j))"
      and "\<not> list_ex is_text (map (\<lambda>r. getc r (j_age_column j)) (rows (j_input j)))"
      and "\<not> list_ex (\<lambda>r. getc r (j_sex_column j) = NA) (rows (j_input j))"
      and "j_sex_labels j = unique_sex_labels (j_sex_column j) (rows (j_input j))"
      and "3 < length (j_sex_labels j)"
  shows "raised (compute_growth_curves fit j) = Some IndexError
     \<and> calls (final (compute_growth_curves fit j)) = []
     \<and> pickled (compute_growth_curves fit j) = None"
proof -
  have "select_eq (j_sex_column j) g (rows (j_input j)) \<noteq> []" if "g \<in> set (j_sex_labels j)" for g
  proof -
    from that assms(5) obtain r where r: "r \<in> set (rows (j_input j))" "getc r (j_sex_column j) = g"
      by (auto simp: unique_sex_labels_def set_py_unique)
    with assms(4) have "cell_eq (getc r (j_sex_column j)) g"
      by (auto simp: cell_eq_def list_ex_iff)
    with r show ?thesis by (auto simp: select_eq_def filter_empty_conv)
  qed
  then have "hist_loop (rows (j_input j)) (j_sex_column j) (j_age_column j) bins 0 (j_sex_labels j)
      = Inl IndexError" for bins
    using assms(6) by (intro hist_loop_index_error) auto
  then have "age_distribution (j_input j) (j_sex_column j) (j_age_column j) (j_sex_labels j)
      = Inl IndexError"
    using assms(1-3) by (simp add: age_distribution_def Let_def)
  then show ?thesis
    by (simp add: compute_growth_curves_def initial_state_def)
qed

theorem more_than_three_labels_witness:
  "j_sex_column four_job \<in> set (columns (j_input four_job))
   \<and> j_age_column four_job \<in> set (columns (j_input four_job))
   \<and> \<not> list_ex is_text (map (\<lambda>r. getc r (j_age_column four_job)) (rows (j_input four_job)))
   \<and> \<not> list_ex (\<lambda>r. getc r (j_sex_column four_job) = NA) (rows (j_input four_job))
   \<and> j_sex_labels four_job
        = unique_sex_labels (j_sex_column four_job) (rows (j_input four_job))
   \<and> 3 < length (j_sex_labels four_job)
   \<and> raised (compute_growth_curves always_raises four_job) = Some IndexError
   \<and> calls (final (compute_growth_curves always_raises four_job)) = []
   \<and> pickled (compute_growth_curves always_raises four_job) = None"
proof -
  have h1: "j_sex_column four_job \<in> set (columns (j_input four_job))" by code_simp
  have h2: "j_age_column four_job \<in> set (columns (j_input four_job))" by code_simp
  have h3: "\<not> list_ex is_text
      (map (\<lambda>r. getc r (j_age_column four_job)) (rows (j_input four_job)))" by code_simp
  have h4: "\<not> list_ex (\<lambda>r. getc r (j_sex_column four_job) = NA) (rows (j_input four_job))"
    by code_simp
  have h5: "j_sex_labels four_job
      = unique_sex_labels (j_sex_column four_job) (rows (j_input four_job))" by code_simp
  have h6: "3 < length (j_sex_labels four_job)" by code_simp
  from more_than_three_labels[OF h1 h2 h3 h4 h5 h6, of always_raises] h1 h2 h3 h4 h5 h6
  show ?thesis by blast
qed

section \<open>The combination loop: what every iteration preserves\<close>

lemma foldl_invariant:
  assumes "P st" and "\<And>st b. P st \<Longrightarrow> P (f st b)"
  shows "P (foldl f st bs)"
  using assms(1)
proof (induction bs arbitrary: st)
  case Nil
  then show ?case by simp
next
  case (Cons b bs)
  from Cons.prems have "P (f st b)" by (rule assms(2))
  then have "P (foldl f (f st b) bs)" by (rule Cons.IH)
  then show ?case by simp
qed

lemma tissue_loop_invariant:
  assumes "P st"
    and "\<And>st t b. P st \<Longrightarrow> P (process_combination fit j fin fdd has_dd s t st b)"
  shows "P (snd (tissue_loop fit j fin fdd has_dd s ts st))"
  using assms(1)
proof (induction ts arbitrary: st)
  case Nil
  then show ?case by simp
next
  case (Cons t ts)
  have "P (foldl (process_combination fit j fin fdd has_dd s t) st (tissue_biomarkers j t))"
    using Cons.prems assms(2) by (rule foldl_invariant[where P = P])
  with Cons show ?case by simp
qed

lemma sex_iteration_invariant:
  assumes "P st"
    and "\<And>fdd has_dd st t b. P st \<Longrightarrow>
      P (process_combination fit j (select_eq (j_sex_column j) s (rows (j_input j)))
           fdd has_dd s t st b)"
  shows "P (snd (sex_iteration fit j s st))"
proof (cases "j_disease_data j")
  case None
  then show ?thesis
    unfolding sex_iteration_def Let_def
    using tissue_loop_invariant[where P = P, OF assms(1) assms(2)] by simp
next
  case (Some dd)
  then show ?thesis
    unfolding sex_iteration_def Let_def
    using tissue_loop_invariant[where P = P, OF assms(1) assms(2)] assms(1) by simp
qed

lemma sex_loop_invariant:
  assumes "P st"
    and "\<And>fdd has_dd s st t b. P st \<Longrightarrow>
      P (process_combination fit j (select_eq (j_sex_column j) s (rows (j_input j)))
           fdd has_dd s t st b)"
  shows "P (snd (sex_loop fit j ss st))"
  using assms(1)
proof (induction ss arbitrary: st)
  case Nil
  then show ?case by simp
next
  case (Cons s ss)
  have "P (snd (sex_iteration fit j s st))"
    using Cons.prems assms(2) by (rule sex_iteration_invariant[where P = P])
  with Cons.IH show ?case
    by (cases "sex_iteration fit j s st") (auto split: option.splits)
qed

lemma choose_call_input:
  "choose_call j fin fdd has_dd s t b = Some c \<Longrightarrow> fc_input c = fin \<and> column_y c = b \<and> fc_sex c = s"
  by (auto simp: choose_call_def Let_def split: option.splits if_splits)

lemma calls_store_result: "calls (store_result s t b st) = calls st"
  by (auto simp: store_result_def Let_def split: option.splits r_result.splits)

lemma process_combination_calls:
  "calls (process_combination fit j fin fdd has_dd s t st b) =
     calls st @ (case choose_call j fin fdd has_dd s t b of None \<Rightarrow> [] | Some c \<Rightarrow> [c])"
  by (auto simp: process_combination_def calls_store_result split: option.splits fit_outcome.splits)

lemma sex_loop_inputs:
  "\<forall>c\<in>set (calls (snd (sex_loop fit j ss initial_state))).
      \<exists>s. fc_input c = select_eq (j_sex_column j) s (rows (j_input j))"
proof (rule sex_loop_invariant[where P = "\<lambda>st. \<forall>c\<in>set (calls st).
      \<exists>s. fc_input c = select_eq (j_sex_column j) s (rows (j_input j))"])
  show "\<forall>c\<in>set (calls initial_state). \<exists>s. fc_input c = select_eq (j_sex_column j) s (rows (j_input j))"
    by (simp add: initial_state_def)
next
  fix fdd has_dd s t b and st :: "'a loop_state"
  assume "\<forall>c\<in>set (calls st). \<exists>s. fc_input c = select_eq (j_sex_column j) s (rows (j_input j))"
  then show "\<forall>c\<in>set (calls (process_combination fit j
        (select_eq (j_sex_column j) s (rows (j_input j))) fdd has_dd s t st b)).
      \<exists>s. fc_input c = select_eq (j_sex_column j) s (rows (j_input j))"
    by (auto simp: process_combination_calls split: option.splits dest!: choose_call_input[OF sym])
qed

lemma compute_inputs:
  assumes "c \<in> set (calls (final (compute_growth_curves fit j)))"
  shows "set (fc_input c) \<subseteq> set (rows (j_input j))"
proof -
  have "\<exists>s. fc_input c = select_eq (j_sex_column j) s (rows (j_input j))"
    using assms sex_loop_inputs[of fit j "j_sex_labels j"]
    by (auto simp: compute_growth_curves_def initial_state_def split: sum.splits prod.splits option.splits)
  then show ?thesis by (auto simp: select_eq_def)
qed

section \<open>The stages of \<^verbatim>\<open>main\<close>\<close>

lemma main_reaches:
  obtains (none) "kept_rows (main fmts fit r_installed a df0) = []"
      "computed (main fmts fit r_installed a df0) = None"
  | (some) df dmap sexc where
      "group_filter (group_arg a) df0 = Inr df"
      "load_disease (biomarker_types a) (disease_frame a) = Inr dmap"
      "find_sex_column (columns df) = Inr sexc"
      "found_columns (tissue_types_of a) (biomarker_types a) df \<noteq> []"
      "chosen_sex_column (main fmts fit r_installed a df0) = Some sexc"
      "kept_rows (main fmts fit r_installed a df0)
         = rows (j_input (make_job a df dmap sexc
             (found_columns (tissue_types_of a) (biomarker_types a) df)))"
      "computed (main fmts fit r_installed a df0) = None
       \<or> computed (main fmts fit r_installed a df0)
          = Some (compute_growth_curves fit (make_job a df dmap sexc
              (found_columns (tissue_types_of a) (biomarker_types a) df)))"
proof (cases "group_filter (group_arg a) df0")
  case (Inl e)
  then show ?thesis by (intro none) (simp_all add: main_def abort_def)
next
  case g: (Inr df)
  show ?thesis
  proof (cases "load_disease (biomarker_types a) (disease_frame a)")
    case (Inl e)
    with g show ?thesis by (intro none) (simp_all add: main_def abort_def)
  next
    case d: (Inr dmap)
    show ?thesis
    proof (cases "find_sex_column (columns df)")
      case (Inl e)
      with g d show ?thesis by (intro none) (simp_all add: main_def abort_def)
    next
      case s: (Inr sexc)
      show ?thesis
      proof (cases "found_columns (tissue_types_of a) (biomarker_types a) df = []")
        case True
        with g d s show ?thesis by (intro none) (simp_all add: main_def abort_def)
      next
        case f: False
        show ?thesis
        proof (cases r_installed)
          case False
          with g d s f show ?thesis
            by (intro some[of df dmap sexc])
              (simp_all add: main_def Let_def abort_def check_r_installed_def)
        next
          case True
          with g d s f show ?thesis
            by (intro some[of df dmap sexc])
              (simp_all add: main_def Let_def check_r_installed_def
                split: option.splits sum.splits)
        qed
      qed
    qed
  qed
qed

section \<open>Rows with missing values\<close>

lemma dropna_idem: "dropna cols (dropna cols rs) = dropna cols rs"
  by (simp add: dropna_def)

lemma dropna_set: "set (dropna cols rs) = {r \<in> set rs. \<forall>c\<in>set cols. getc r c \<noteq> NA}"
  by (auto simp: dropna_def list_all_iff)

lemma group_filter_rows: "group_filter g df0 = Inr df \<Longrightarrow> set (rows df) \<subseteq> set (rows df0)"
  by (auto simp: group_filter_def split: if_splits)

lemma make_job_simps:
  "rows (j_input (make_job a df dmap sexc found)) = dropna (required_columns sexc found) (rows df)"
  "columns (j_input (make_job a df dmap sexc found)) = columns df"
  "j_sex_column (make_job a df dmap sexc found) = sexc"
  "j_age_column (make_job a df dmap sexc found) = age_col a"
  "j_biomarkers (make_job a df dmap sexc found) = map fst found"
  "j_biomarker_tissue_map (make_job a df dmap sexc found) = make_biomarker_tissue_map found"
  "j_disease_data (make_job a df dmap sexc found) = disease_frame a"
  "j_disease_tissue_map (make_job a df dmap sexc found) = dmap"
  "j_tissue_types (make_job a df dmap sexc found) = tissue_types_of a"
  "j_sex_labels (make_job a df dmap sexc found)
     = unique_sex_labels sexc (dropna (required_columns sexc found) (rows df))"
  by (simp_all add: make_job_def Let_def)

lemma found_columns_iff:
  "(name, t) \<in> set (found_columns tissues btypes df) \<longleftrightarrow>
     t \<in> set tissues \<and> name \<in> set (columns df) \<and> (\<exists>b\<in>set btypes. name = t @ ''_'' @ b)"
  by (auto simp: found_columns_def expected_columns_def)

lemma compute_histograms:
  assumes "h \<in> set (histograms (compute_growth_curves fit j))"
  shows "h_ages h = map (\<lambda>r. getc r (j_age_column j))
           (filter (\<lambda>r. getc r (j_sex_column j) = h_gender h) (rows (j_input j)))"
proof -
  from assms obtain hs where
    "age_distribution (j_input j) (j_sex_column j) (j_age_column j) (j_sex_labels j) = Inr hs"
    "h \<in> set hs"
    by (auto simp: compute_growth_curves_def split: sum.splits prod.splits option.splits)
  then obtain bins where "hist_loop (rows (j_input j)) (j_sex_column j) (j_age_column j) bins 0
      (j_sex_labels j) = Inr hs"
    by (auto simp: age_distribution_def Let_def split: if_splits)
  from hist_loop_props[OF this] \<open>h \<in> set hs\<close> show ?thesis by blast
qed

text \<open>
  Claim C7: dropping the rows with a missing value in the listed columns is idempotent; and
  in a run of \<^verbatim>\<open>main\<close> every fitting call and every histogram reads only rows that
  were kept, where a kept row is a row of the input that has its sex and every biomarker
  column that the run requires (each \<open>tissue_type\<close> column of the command line that the
  input has).
\<close>

theorem missing_rows_excluded:
  "dropna cols (dropna cols rs) = dropna cols rs
   \<and> (\<forall>c\<in>set (attempted (main fmts fit r_installed a df0)).
        set (fc_input c) \<subseteq> set (kept_rows (main fmts fit r_installed a df0)))
   \<and> (\<forall>out h. computed (main fmts fit r_installed a df0) = Some out \<and> h \<in> set (histograms out) \<longrightarrow>
        (\<exists>rs'. set rs' \<subseteq> set (kept_rows (main fmts fit r_installed a df0))
            \<and> h_ages h = map (\<lambda>r. getc r (age_col a)) rs'))
   \<and> (\<forall>r\<in>set (kept_rows (main fmts fit r_installed a df0)).
        r \<in> set (rows df0)
      \<and> (\<forall>sexc. chosen_sex_column (main fmts fit r_installed a df0) = Some sexc \<longrightarrow>
            getc r sexc \<noteq> NA)
      \<and> (\<forall>t\<in>set (tissue_types_of a). \<forall>b\<in>set (biomarker_types a).
            t @ ''_'' @ b \<in> set (columns df0) \<longrightarrow> getc r (t @ ''_'' @ b) \<noteq> NA))"
proof -
  let ?R = "main fmts fit r_installed a df0"
  have main_part:
    "(\<forall>c\<in>set (attempted ?R). set (fc_input c) \<subseteq> set (kept_rows ?R))
   \<and> (\<forall>out h. computed ?R = Some out \<and> h \<in> set (histograms out) \<longrightarrow>
        (\<exists>rs'. set rs' \<subseteq> set (kept_rows ?R) \<and> h_ages h = map (\<lambda>r. getc r (age_col a)) rs'))
   \<and> (\<forall>r\<in>set (kept_rows ?R).
        r \<in> set (rows df0)
      \<and> (\<forall>sexc. chosen_sex_column ?R = Some sexc \<longrightarrow> getc r sexc \<noteq> NA)
      \<and> (\<forall>t\<in>set (tissue_types_of a). \<forall>b\<in>set (biomarker_types a).
            t @ ''_'' @ b \<in> set (columns df0) \<longrightarrow> getc r (t @ ''_'' @ b) \<noteq> NA))"
  proof (cases rule: main_reaches[of fmts fit r_installed a df0])
    case none
    then show ?thesis by (simp add: attempted_def)
  next
    case (some df dmap sexc)
    let ?found = "found_columns (tissue_types_of a) (biomarker_types a) df"
    let ?j = "make_job a df dmap sexc ?found"
    have kept: "kept_rows ?R = dropna (required_columns sexc ?found) (rows df)"
      using some(6) by (simp add: make_job_simps)
    have calls: "set (fc_input c) \<subseteq> set (kept_rows ?R)" if "c \<in> set (attempted ?R)" for c
      using that some(7) compute_inputs[of c fit ?j] some(6)
      by (auto simp: attempted_def)
    have hists: "\<exists>rs'. set rs' \<subseteq> set (kept_rows ?R) \<and> h_ages h = map (\<lambda>r. getc r (age_col a)) rs'"
      if "computed ?R = Some out" "h \<in> set (histograms out)" for out h
    proof -
      from that some(7) have "h \<in> set (histograms (compute_growth_curves fit ?j))" by auto
      from compute_histograms[OF this]
      have "h_ages h = map (\<lambda>r. getc r (age_col a))
          (filter (\<lambda>r. getc r sexc = h_gender h) (kept_rows ?R))"
        by (simp add: make_job_simps kept)
      then show ?thesis
        by (intro exI[of _ "filter (\<lambda>r. getc r sexc = h_gender h) (kept_rows ?R)"]) auto
    qed
    have rows: "r \<in> set (rows df0) \<and> getc r sexc \<noteq> NA
      \<and> (\<forall>t\<in>set (tissue_types_of a). \<forall>b\<in>set (biomarker_types a).
            t @ ''_'' @ b \<in> set (columns df0) \<longrightarrow> getc r (t @ ''_'' @ b) \<noteq> NA)"
      if r: "r \<in> set (kept_rows ?R)" for r
    proof -
      from r have in_df: "r \<in> set (rows df)"
        and req: "\<forall>c\<in>set (required_columns sexc ?found). getc r c \<noteq> NA"
        unfolding kept dropna_set by auto
      have "getc r (t @ ''_'' @ b) \<noteq> NA"
        if "t \<in> set (tissue_types_of a)" "b \<in> set (biomarker_types a)"
          "t @ ''_'' @ b \<in> set (columns df0)" for t b
      proof -
        from that have "(t @ ''_'' @ b, t) \<in> set ?found"
          unfolding found_columns_iff group_filter_columns[OF some(1)] by blast
        then have "t @ ''_'' @ b \<in> set (required_columns sexc ?found)"
          by (force simp: required_columns_def)
        with req show ?thesis by blast
      qed
      moreover have "getc r sexc \<noteq> NA" using req by (simp add: required_columns_def)
      ultimately show ?thesis using in_df group_filter_rows[OF some(1)] by blast
    qed
    from calls hists rows some(5) show ?thesis by auto
  qed
  show ?thesis using main_part dropna_idem by blast
qed

theorem missing_rows_excluded_witness:
  "attempted (main plain_formats always_raises True demo_args demo_frame) \<noteq> []
   \<and> set (fc_input (hd (attempted (main plain_formats always_raises True demo_args demo_frame))))
        \<subseteq> set (kept_rows (main plain_formats always_raises True demo_args demo_frame))
   \<and> kept_rows (main plain_formats always_raises True demo_args demo_frame) \<noteq> []
   \<and> chosen_sex_column (main plain_formats always_raises True demo_args demo_frame)
        = Some ''Sex''
   \<and> getc (hd (kept_rows (main plain_formats always_raises True demo_args demo_frame))) ''Sex''
        \<noteq> NA"
proof -
  let ?R = "main plain_formats always_raises True demo_args demo_frame"
  have a: "attempted ?R \<noteq> []" by code_simp
  have k: "kept_rows ?R \<noteq> []" by code_simp
  have c: "chosen_sex_column ?R = Some ''Sex''" by code_simp
  from a have ha: "hd (attempted ?R) \<in> set (attempted ?R)" by simp
  from k have hk: "hd (kept_rows ?R) \<in> set (kept_rows ?R)" by simp
  from missing_rows_excluded[of "[]" "[]" plain_formats always_raises True demo_args demo_frame]
    ha hk c a k
  show ?thesis by blast
qed

section \<open>The parameter table\<close>

lemma try_map_InrD:
  assumes "try_map f xs = Inr ys"
  shows "length ys = length xs \<and> (\<forall>i<length xs. f (xs ! i) = Inr (ys ! i))"
  using assms
proof (induction xs arbitrary: ys)
  case Nil
  then show ?case by simp
next
  case (Cons x xs)
  then obtain y ys' where "f x = Inr y" "try_map f xs = Inr ys'" "ys = y # ys'"
    by (auto split: sum.splits)
  with Cons.IH[of ys'] show ?case by (auto simp: nth_Cons split: nat.splits)
qed

lemma labelled_row_Inr:
  "labelled_row name r = Inr row \<longleftrightarrow> (\<exists>cs. r = Inr cs \<and> row = name # cs)"
  by (auto simp: labelled_row_def split: sum.splits)

lemma labelled_rows:
  assumes "try_map (\<lambda>x. labelled_row (lab x) (try_map (cell x) ps)) xs = Inr rws"
  shows "length rws = length xs"
    and "map hd rws = map lab xs"
    and "\<And>k. k < length xs \<Longrightarrow> length (rws ! k) = Suc (length ps)"
    and "\<And>k i. k < length xs \<Longrightarrow> i < length ps \<Longrightarrow> cell (xs ! k) (ps ! i) = Inr ((rws ! k) ! Suc i)"
proof -
  from try_map_InrD[OF assms] have len: "length rws = length xs"
    and each: "\<And>k. k < length xs \<Longrightarrow>
      \<exists>cs. try_map (cell (xs ! k)) ps = Inr cs \<and> rws ! k = lab (xs ! k) # cs"
    unfolding labelled_row_Inr by auto
  show "length rws = length xs" by (rule len)
  show "map hd rws = map lab xs"
  proof (rule nth_equalityI)
    show "length (map hd rws) = length (map lab xs)" by (simp add: len)
  next
    fix k assume "k < length (map hd rws)"
    then have k: "k < length xs" by (simp add: len)
    from each[OF k] k show "map hd rws ! k = map lab xs ! k" by (auto simp: len)
  qed
  show "length (rws ! k) = Suc (length ps)" if "k < length xs" for k
    using each[OF that] by (auto dest: try_map_InrD)
  show "cell (xs ! k) (ps ! i) = Inr ((rws ! k) ! Suc i)"
    if "k < length xs" "i < length ps" for k i
    using each[OF that(1)] that(2) by (auto dest: try_map_InrD)
qed

lemma texts_of_all_text:
  "list_all is_text cs \<Longrightarrow> map S (concat (map (\<lambda>c. case c of S x \<Rightarrow> [x] | _ \<Rightarrow> []) cs)) = cs"
  by (induction cs) (auto simp: is_text_def split: cell.splits)

lemma numbers_of_all_number:
  "list_all is_number cs \<Longrightarrow> map N (numbers_of cs) = cs"
  by (induction cs) (auto simp: is_number_def numbers_of_def split: cell.splits)

lemma py_sorted_cells_set:
  assumes "py_sorted_cells cs = Inr gs"
  shows "set gs = set cs \<and> length gs = length cs"
proof -
  consider "length cs \<le> 1" | "list_all is_text cs" "\<not> length cs \<le> 1"
    | "list_all is_number cs" "\<not> list_all is_text cs" "\<not> length cs \<le> 1"
    using assms by (auto simp: py_sorted_cells_def split: if_splits)
  then show ?thesis
  proof cases
    case 1
    with assms show ?thesis by (simp add: py_sorted_cells_def)
  next
    case 2
    let ?xs = "concat (map (\<lambda>c. case c of S x \<Rightarrow> [x] | _ \<Rightarrow> []) cs)"
    from 2 assms have gs: "gs = map S (sort ?xs)" by (simp add: py_sorted_cells_def)
    have "set (map S (sort ?xs)) = set (map S ?xs)" by simp
    moreover have "length (map S (sort ?xs)) = length (map S ?xs)" by simp
    ultimately show ?thesis unfolding gs texts_of_all_text[OF 2(1)] by simp
  next
    case 3
    from 3 assms have gs: "gs = map N (sort (numbers_of cs))" by (simp add: py_sorted_cells_def)
    have "set (map N (sort (numbers_of cs))) = set (map N (numbers_of cs))" by simp
    moreover have "length (map N (sort (numbers_of cs))) = length (map N (numbers_of cs))" by simp
    ultimately show ?thesis unfolding gs numbers_of_all_number[OF 3(1)] by simp
  qed
qed

lemma coef_names_sorted:
  "sorted (coef_names ps) \<and> distinct (coef_names ps)
   \<and> set (coef_names ps) = {n. \<exists>mp. Some mp \<in> set ps \<and> n \<in> fst ` set (coefs mp)}"
  by (auto simp: coef_names_def split: option.splits)


lemma dist_params_nth:
  "length (dist_params :: (string \<times> ('v model_parameters \<Rightarrow> 'v option)) list) = 4"
  "map fst (dist_params :: (string \<times> ('v model_parameters \<Rightarrow> 'v option)) list)
     = [''mu'', ''sigma'', ''nu'', ''tau'']"
  "snd ((dist_params :: (string \<times> ('v model_parameters \<Rightarrow> 'v option)) list) ! 0) = mu"
  "snd ((dist_params :: (string \<times> ('v model_parameters \<Rightarrow> 'v option)) list) ! 1) = sigma"
  "snd ((dist_params :: (string \<times> ('v model_parameters \<Rightarrow> 'v option)) list) ! 2) = nu"
  "snd ((dist_params :: (string \<times> ('v model_parameters \<Rightarrow> 'v option)) list) ! 3) = tau"
  by (simp_all add: dist_params_def)

lemma cells_absent:
  "model_cell None = ''N/A''"
  "aic_cell fmts None = Inr ''N/A''"
  "coef_cell fmts name None = Inr ''N/A''"
  "dist_cell fmts sel None = Inr ''N/A''"
  "aic mp = None \<Longrightarrow> aic_cell fmts (Some mp) = Inr ''N/A''"
  "map_of (coefs mp) name = None \<Longrightarrow> coef_cell fmts name (Some mp) = Inr ''N/A''"
  "sel mp = None \<Longrightarrow> dist_cell fmts sel (Some mp) = Inr ''N/A''"
  by (simp_all add: model_cell_def aic_cell_def coef_cell_def dist_cell_def)

text \<open>
  Claim C4: a parameter table that is rendered consists of the header, the row of the model
  family, the row of the AIC, one row for each coefficient name of any sex in sorted order
  without repetition, and the four rows \<open>mu\<close>, \<open>sigma\<close>, \<open>nu\<close>, \<open>tau\<close> in this order.
  Every row has one cell for each sex of the results, in sorted order. Where the biomarker
  is absent for a sex every cell of that sex below the header is \<open>N/A\<close>; where a
  distribution parameter, the AIC or a coefficient is absent for a sex, so is its cell.
\<close>

theorem param_table_rows:
  assumes "param_table fmts genders tissue_data biomarker = Inr tab"
  shows "\<exists>gs aics coef_rows dist_rows.
      py_sorted_cells genders = Inr gs \<and> set gs = set genders
    \<and> tab = (''Parameter'' # map (\<lambda>g. ''Value ('' @ str_label fmts g @ '')'') gs)
          # (''Best model family'' # map (\<lambda>g. model_cell (params_of tissue_data biomarker g)) gs)
          # (''AIC'' # aics) # coef_rows @ dist_rows
    \<and> length aics = length gs
    \<and> map hd coef_rows = coef_names (map (params_of tissue_data biomarker) gs)
    \<and> sorted (map hd coef_rows) \<and> distinct (map hd coef_rows)
    \<and> map hd dist_rows = [''mu'', ''sigma'', ''nu'', ''tau'']
    \<and> (\<forall>row\<in>set tab. length row = Suc (length gs))
    \<and> (\<forall>i<length gs. params_of tissue_data biomarker (gs ! i) = None \<longrightarrow>
          (\<forall>row\<in>set (tl tab). row ! Suc i = ''N/A''))
    \<and> (\<forall>i<length gs. \<forall>mp. params_of tissue_data biomarker (gs ! i) = Some mp \<longrightarrow>
          (aic mp = None \<longrightarrow> aics ! i = ''N/A'')
        \<and> (mu mp = None \<longrightarrow> dist_rows ! 0 ! Suc i = ''N/A'')
        \<and> (sigma mp = None \<longrightarrow> dist_rows ! 1 ! Suc i = ''N/A'')
        \<and> (nu mp = None \<longrightarrow> dist_rows ! 2 ! Suc i = ''N/A'')
        \<and> (tau mp = None \<longrightarrow> dist_rows ! 3 ! Suc i = ''N/A'')
        \<and> (\<forall>k<length coef_rows. map_of (coefs mp) (hd (coef_rows ! k)) = None \<longrightarrow>
              coef_rows ! k ! Suc i = ''N/A''))"
proof -
  let ?P = "params_of tissue_data biomarker"
  from assms obtain gs where gs: "py_sorted_cells genders = Inr gs"
    by (auto simp: param_table_def split: sum.splits)
  let ?ps = "map ?P gs"
  from assms gs obtain aics coef_rows dist_rows where
    aics: "try_map (aic_cell fmts) ?ps = Inr aics"
    and crows: "try_map (\<lambda>name. labelled_row name (try_map (coef_cell fmts name) ?ps))
        (coef_names ?ps) = Inr coef_rows"
    and drows: "try_map (\<lambda>d. labelled_row (fst d) (try_map (dist_cell fmts (snd d)) ?ps))
        dist_params = Inr dist_rows"
    and tab: "tab = (''Parameter'' # map (\<lambda>g. ''Value ('' @ str_label fmts g @ '')'') gs)
          # (''Best model family'' # map model_cell ?ps)
          # (''AIC'' # aics) # coef_rows @ dist_rows"
    by (auto simp: param_table_def Let_def split: sum.splits)
  note A = try_map_InrD[OF aics]
  note C = labelled_rows[where lab = "\<lambda>name. name" and cell = "coef_cell fmts", OF crows]
  note D = labelled_rows[where lab = fst and cell = "\<lambda>d. dist_cell fmts (snd d)", OF drows]
  have la: "length aics = length gs" using A by simp
  have ch: "map hd coef_rows = coef_names ?ps" using C(2) by simp
  have dh: "map hd dist_rows = [''mu'', ''sigma'', ''nu'', ''tau'']"
    using D(2) by (simp add: dist_params_nth)
  have dl: "length dist_rows = 4" using D(1) by (simp add: dist_params_nth)
  have clen: "length row = Suc (length gs)" if "row \<in> set coef_rows" for row
    using that C(1) C(3) by (auto simp: in_set_conv_nth)
  have dlen: "length row = Suc (length gs)" if "row \<in> set dist_rows" for row
    using that D(1) D(3) by (auto simp: in_set_conv_nth)
  have lens: "\<forall>row\<in>set tab. length row = Suc (length gs)"
    unfolding tab using la clen dlen by auto
  have aic_at: "aic_cell fmts (?P (gs ! i)) = Inr (aics ! i)" if "i < length gs" for i
    using A that by auto
  have coef_at: "coef_cell fmts (hd (coef_rows ! k)) (?P (gs ! i)) = Inr (coef_rows ! k ! Suc i)"
    if "k < length coef_rows" "i < length gs" for k i
  proof -
    from that C(1) have k: "k < length (coef_names ?ps)" by simp
    have "hd (coef_rows ! k) = coef_names ?ps ! k"
      using ch that(1) by (metis length_map nth_map)
    with C(4)[OF k, of i] that(2) show ?thesis by simp
  qed
  have dist_at: "dist_cell fmts (snd (dist_params ! k)) (?P (gs ! i)) = Inr (dist_rows ! k ! Suc i)"
    if "k < 4" "i < length gs" for k i
    using D(4)[of k i] that by (simp add: dist_params_nth)
  have absent: "row ! Suc i = ''N/A''"
    if i: "i < length gs" and none: "?P (gs ! i) = None" and row: "row \<in> set (tl tab)" for i row
  proof -
    from row consider "row = ''Best model family'' # map model_cell ?ps"
      | "row = ''AIC'' # aics" | "row \<in> set coef_rows" | "row \<in> set dist_rows"
      unfolding tab by auto
    then show ?thesis
    proof cases
      case 1
      with i none show ?thesis by (simp add: cells_absent)
    next
      case 2
      with aic_at[OF i] none show ?thesis by (simp add: cells_absent)
    next
      case 3
      then obtain k where "k < length coef_rows" "row = coef_rows ! k"
        by (auto simp: in_set_conv_nth)
      with coef_at[OF this(1) i] none show ?thesis by (simp add: cells_absent)
    next
      case 4
      then obtain k where "k < 4" "row = dist_rows ! k"
        using dl by (auto simp: in_set_conv_nth)
      with dist_at[OF this(1) i] none show ?thesis by (simp add: cells_absent)
    qed
  qed
  have present: "(aic mp = None \<longrightarrow> aics ! i = ''N/A'')
        \<and> (mu mp = None \<longrightarrow> dist_rows ! 0 ! Suc i = ''N/A'')
        \<and> (sigma mp = None \<longrightarrow> dist_rows ! 1 ! Suc i = ''N/A'')
        \<and> (nu mp = None \<longrightarrow> dist_rows ! 2 ! Suc i = ''N/A'')
        \<and> (tau mp = None \<longrightarrow> dist_rows ! 3 ! Suc i = ''N/A'')
        \<and> (\<forall>k<length coef_rows. map_of (coefs mp) (hd (coef_rows ! k)) = None \<longrightarrow>
              coef_rows ! k ! Suc i = ''N/A'')"
    if i: "i < length gs" and some: "?P (gs ! i) = Some mp" for i mp
  proof -
    have a: "aic_cell fmts (Some mp) = Inr (aics ! i)" using aic_at[OF i] some by simp
    have d0: "dist_cell fmts mu (Some mp) = Inr (dist_rows ! 0 ! Suc i)"
      using dist_at[of 0 i] i some by (simp add: dist_params_def)
    have d1: "dist_cell fmts sigma (Some mp) = Inr (dist_rows ! 1 ! Suc i)"
      using dist_at[of 1 i] i some by (simp add: dist_params_def)
    have d2: "dist_cell fmts nu (Some mp) = Inr (dist_rows ! 2 ! Suc i)"
      using dist_at[of 2 i] i some by (simp add: dist_params_def)
    have d3: "dist_cell fmts tau (Some mp) = Inr (dist_rows ! 3 ! Suc i)"
      using dist_at[of 3 i] i some by (simp add: dist_params_def)
    have c: "coef_rows ! k ! Suc i = ''N/A''"
      if "k < length coef_rows" "map_of (coefs mp) (hd (coef_rows ! k)) = None" for k
      using coef_at[OF that(1) i] that(2) some by (simp add: cells_absent)
    from a d0 d1 d2 d3 c show ?thesis by (auto simp: aic_cell_def dist_cell_def)
  qed
  have sd: "sorted (map hd coef_rows) \<and> distinct (map hd coef_rows)"
    unfolding ch using coef_names_sorted[of ?ps] by simp
  have tab': "tab = (''Parameter'' # map (\<lambda>g. ''Value ('' @ str_label fmts g @ '')'') gs)
          # (''Best model family'' # map (\<lambda>g. model_cell (?P g)) gs)
          # (''AIC'' # aics) # coef_rows @ dist_rows"
    unfolding tab by (simp add: comp_def)
  show ?thesis
    apply (rule exI[of _ gs], rule exI[of _ aics], rule exI[of _ coef_rows],
        rule exI[of _ dist_rows])
    apply (intro conjI)
    subgoal by (rule gs)
    subgoal using py_sorted_cells_set[OF gs] by simp
    subgoal by (rule tab')
    subgoal by (rule la)
    subgoal by (rule ch)
    subgoal using sd by simp
    subgoal using sd by simp
    subgoal by (rule dh)
    subgoal by (rule lens)
    subgoal using absent by blast
    subgoal using present by blast
    done
qed

theorem param_table_rows_witness:
  "param_table plain_formats [S ''M'', S ''F''] demo_tissue_data ''WM_FA'' = Inr demo_table
   \<and> (\<exists>gs aics coef_rows dist_rows.
        py_sorted_cells [S ''M'', S ''F''] = Inr gs
      \<and> demo_table =
          (''Parameter'' # map (\<lambda>g. ''Value ('' @ str_label plain_formats g @ '')'') gs)
          # (''Best model family''
              # map (\<lambda>g. model_cell (params_of demo_tissue_data ''WM_FA'' g)) gs)
          # (''AIC'' # aics) # coef_rows @ dist_rows
      \<and> map hd dist_rows = [''mu'', ''sigma'', ''nu'', ''tau''])"
proof -
  have t: "param_table plain_formats [S ''M'', S ''F''] demo_tissue_data ''WM_FA''
      = Inr demo_table"
    by code_simp
  from param_table_rows[OF t] obtain gs aics coef_rows dist_rows where
    "py_sorted_cells [S ''M'', S ''F''] = Inr gs"
    "demo_table =
          (''Parameter'' # map (\<lambda>g. ''Value ('' @ str_label plain_formats g @ '')'') gs)
          # (''Best model family''
              # map (\<lambda>g. model_cell (params_of demo_tissue_data ''WM_FA'' g)) gs)
          # (''AIC'' # aics) # coef_rows @ dist_rows"
    "map hd dist_rows = [''mu'', ''sigma'', ''nu'', ''tau'']"
    by (elim exE conjE)
  with t show ?thesis by (intro conjI exI)
qed

section \<open>Failures of the fitting procedure\<close>

lemma tissue_loop_error:
  "fst (tissue_loop fit j fin fdd has_dd s ts st) =
     (if ts \<noteq> [] \<and> list_ex (\<lambda>b. map_of (j_biomarker_tissue_map j) b = None) (j_biomarkers j)
      then Some (KeyError ''biomarker_tissue_map'') else None)"
  by (induction ts arbitrary: st) auto

lemma sex_iteration_error:
  "fst (sex_iteration fit j s st) = fst (sex_iteration fit' j s st')"
  by (simp add: sex_iteration_def Let_def tissue_loop_error split: option.splits)

lemma sex_loop_error:
  "fst (sex_loop fit j ss st) = fst (sex_loop fit' j ss st')"
proof (induction ss arbitrary: st st')
  case Nil
  then show ?case by simp
next
  case (Cons s ss)
  obtain e1 st1 where r1: "sex_iteration fit j s st = (e1, st1)" by (cases "sex_iteration fit j s st")
  obtain e2 st2 where r2: "sex_iteration fit' j s st' = (e2, st2)" by (cases "sex_iteration fit' j s st'")
  have "e1 = e2" using sex_iteration_error[of fit j s st fit' st'] r1 r2 by simp
  then show ?case using r1 r2 Cons.IH[of st1 st2] by (cases e1) auto
qed

lemma compute_raised_any_fitter:
  "raised (compute_growth_curves fit j) = raised (compute_growth_curves fit' j)"
proof (cases "age_distribution (j_input j) (j_sex_column j) (j_age_column j) (j_sex_labels j)")
  case (Inl e)
  then show ?thesis by (simp add: compute_growth_curves_def)
next
  case (Inr hs)
  obtain e1 st1 where r1: "sex_loop fit j (j_sex_labels j) initial_state = (e1, st1)"
    by (cases "sex_loop fit j (j_sex_labels j) initial_state")
  obtain e2 st2 where r2: "sex_loop fit' j (j_sex_labels j) initial_state = (e2, st2)"
    by (cases "sex_loop fit' j (j_sex_labels j) initial_state")
  have "e1 = e2"
    using sex_loop_error[of fit j "j_sex_labels j" initial_state fit' initial_state] r1 r2
    by simp
  then show ?thesis using Inr r1 r2
    by (auto simp: compute_growth_curves_def split: option.splits)
qed

lemma pickled_iff_raised:
  "pickled (compute_growth_curves fit j) = None \<longleftrightarrow> raised (compute_growth_curves fit j) \<noteq> None"
  "pickled (compute_growth_curves fit j) = Some res \<Longrightarrow> res = results (final (compute_growth_curves fit j))"
  by (auto simp: compute_growth_curves_def split: sum.splits prod.splits option.splits)

text \<open>One iteration whose fitting call raises stores nothing.\<close>

lemma failed_fit_stores_nothing:
  assumes "choose_call j fin fdd has_dd s t b = Some c" and "fit (calls st) c = Raises"
  shows "results (process_combination fit j fin fdd has_dd s t st b) = results st"
    and "result_var (process_combination fit j fin fdd has_dd s t st b) = result_var st"
  using assms by (simp_all add: process_combination_def)

lemma map_of_ensure_key:
  "map_of (ensure_key k m) k' = (if k' = k \<and> map_of m k = None then Some [] else map_of m k')"
  by (auto simp: ensure_key_def map_add_def split: option.splits)

lemma lookup3_ensure_path:
  "lookup3 (ensure_path t s res) t' s' b' = lookup3 res t' s' b'"
  by (auto simp: lookup3_def ensure_path_def map_of_map_entry map_of_ensure_key
      split: option.splits)

lemma lookup3_put_leaf:
  "lookup3 (put_leaf t s b l res) t' s' b' =
     (if t' = t \<and> s' = s \<and> b' = b \<and> (\<exists>by_sex. map_of res t = Some by_sex \<and> map_of by_sex s \<noteq> None)
      then Some l else lookup3 res t' s' b')"
  by (auto simp: lookup3_def put_leaf_def map_of_map_entry update_conv'
      split: option.splits)

lemma iteration_touches_own_key:
  assumes "(t', s', b') \<noteq> (t, s, b)"
  shows "lookup3 (results (process_combination fit j fin fdd has_dd s t st b)) t' s' b'
       = lookup3 (results st) t' s' b'"
  using assms
  by (auto simp: process_combination_def store_result_def Let_def lookup3_ensure_path
      lookup3_put_leaf split: option.splits fit_outcome.splits r_result.splits)


text \<open>When every fitting call raises, the dict stays without a leaf and the report has
  no table.\<close>

lemma list_all_ensure_key:
  "list_all (\<lambda>gd. snd gd = []) m \<Longrightarrow> list_all (\<lambda>gd. snd gd = []) (ensure_key k m)"
  by (simp add: ensure_key_def)

lemma no_leaves_map_entry:
  assumes "no_leaves res"
    and "\<And>m. list_all (\<lambda>gd. snd gd = []) m \<Longrightarrow> list_all (\<lambda>gd. snd gd = []) (f m)"
  shows "no_leaves (AList.map_entry t f res)"
  using assms(1) by (induction res) (auto simp: no_leaves_def assms(2))

lemma no_leaves_ensure_path: "no_leaves res \<Longrightarrow> no_leaves (ensure_path t s res)"
  unfolding ensure_path_def
  by (rule no_leaves_map_entry) (simp_all add: no_leaves_def ensure_key_def)

lemma raising_step:
  assumes "no_leaves (results st) \<and> result_var st = None"
  shows "no_leaves (results (process_combination (\<lambda>h c. Raises) j fin fdd has_dd s t st b))
     \<and> result_var (process_combination (\<lambda>h c. Raises) j fin fdd has_dd s t st b) = None"
  using assms
  by (auto simp: process_combination_def store_result_def Let_def no_leaves_ensure_path
      split: option.splits)

lemma raising_loop:
  "no_leaves (results (snd (sex_loop (\<lambda>h c. Raises) j ss (initial_state :: 'v loop_state))))"
proof -
  let ?st0 = "initial_state :: 'v loop_state"
  have "no_leaves (results (snd (sex_loop (\<lambda>h c. Raises) j ss ?st0)))
      \<and> result_var (snd (sex_loop (\<lambda>h c. Raises) j ss ?st0)) = None"
  proof (rule sex_loop_invariant[where P = "\<lambda>st. no_leaves (results st) \<and> result_var st = None"])
    show "no_leaves (results ?st0) \<and> result_var ?st0 = None"
      by (simp add: initial_state_def no_leaves_def)
  next
    fix fdd has_dd s t b and st :: "'v loop_state"
    assume "no_leaves (results st) \<and> result_var st = None"
    then show "no_leaves (results (process_combination (\<lambda>h c. Raises) j
          (select_eq (j_sex_column j) s (rows (j_input j))) fdd has_dd s t st b))
      \<and> result_var (process_combination (\<lambda>h c. Raises) j
          (select_eq (j_sex_column j) s (rows (j_input j))) fdd has_dd s t st b) = None"
      by (rule raising_step)
  qed
  then show ?thesis by simp
qed

lemma report_no_leaves:
  assumes "no_leaves res"
  shows "generate_output_report fmts res = Inr []"
proof -
  from assms
  have c: "concat (map (\<lambda>td. concat (map (\<lambda>gd. map fst (snd gd)) (snd td))) res) = []"
    by (auto simp: no_leaves_def list_all_iff)
  have "all_biomarkers res = []" unfolding all_biomarkers_def c by simp
  then have "table_jobs res = []" by (simp add: table_jobs_def)
  then show ?thesis by (simp add: generate_output_report_def)
qed

lemma compute_raising_report:
  assumes "pickled (compute_growth_curves (\<lambda>h c. Raises) j) = Some res"
  shows "generate_output_report fmts res = Inr []"
proof -
  from assms
  have r: "res = results (snd (sex_loop (\<lambda>h c. Raises) j (j_sex_labels j) initial_state))"
    by (auto simp: compute_growth_curves_def split: sum.splits prod.splits option.splits)
  have "no_leaves res" unfolding r by (rule raising_loop)
  then show ?thesis by (rule report_no_leaves)
qed

lemma found_columns_cong:
  "columns df = columns df0 \<Longrightarrow> found_columns ts bs df = found_columns ts bs df0"
  by (simp add: found_columns_def)

lemma exit_code_abort: "exit_code (abort e sc) = 1" "attempted (abort e sc) = []"
  "computed (abort e sc) = None"
  by (simp_all add: exit_code_def attempted_def abort_def)

lemma main_setup:
  "computed (main fmts fit r_installed a df0) = None \<longleftrightarrow>
     isl (group_filter (group_arg a) df0)
   \<or> isl (load_disease (biomarker_types a) (disease_frame a))
   \<or> \<not> list_ex mentions_sex (columns df0)
   \<or> found_columns (tissue_types_of a) (biomarker_types a) df0 = []
   \<or> \<not> r_installed"
  "computed (main fmts fit r_installed a df0) = None \<Longrightarrow>
     exit_code (main fmts fit r_installed a df0) = 1"
proof -
  let ?R = "main fmts fit r_installed a df0"
  have "(computed ?R = None \<longleftrightarrow>
     isl (group_filter (group_arg a) df0)
   \<or> isl (load_disease (biomarker_types a) (disease_frame a))
   \<or> \<not> list_ex mentions_sex (columns df0)
   \<or> found_columns (tissue_types_of a) (biomarker_types a) df0 = []
   \<or> \<not> r_installed) \<and> (computed ?R = None \<longrightarrow> exit_code ?R = 1)"
  proof (cases "group_filter (group_arg a) df0")
    case (Inl e)
    then show ?thesis by (simp add: main_def exit_code_abort)
  next
    case g: (Inr df)
    note cols = group_filter_columns[OF g]
    show ?thesis
    proof (cases "load_disease (biomarker_types a) (disease_frame a)")
      case (Inl e)
      with g show ?thesis by (simp add: main_def exit_code_abort)
    next
      case d: (Inr dmap)
      show ?thesis
      proof (cases "find_sex_column (columns df)")
        case (Inl e)
        then have "\<not> list_ex mentions_sex (columns df0)"
          by (simp add: find_sex_column_Inl cols)
        with Inl g d show ?thesis by (simp add: main_def exit_code_abort)
      next
        case s: (Inr sexc)
        then have m: "list_ex mentions_sex (columns df0)"
          unfolding find_sex_column_Inr cols[symmetric] by (auto simp: list_ex_iff)
        show ?thesis
        proof (cases "found_columns (tissue_types_of a) (biomarker_types a) df = []")
          case True
          with g d s m show ?thesis
            by (simp add: main_def exit_code_abort found_columns_cong[OF cols])
        next
          case f: False
          show ?thesis
          proof (cases r_installed)
            case False
            with g d s f m show ?thesis
              by (simp add: main_def Let_def abort_def check_r_installed_def exit_code_def)
          next
            case True
            with g d s f m show ?thesis
              by (simp add: main_def Let_def check_r_installed_def
                  found_columns_cong[OF cols] split: option.splits sum.splits)
          qed
        qed
      qed
    qed
  qed
  then show "computed ?R = None \<longleftrightarrow>
     isl (group_filter (group_arg a) df0)
   \<or> isl (load_disease (biomarker_types a) (disease_frame a))
   \<or> \<not> list_ex mentions_sex (columns df0)
   \<or> found_columns (tissue_types_of a) (biomarker_types a) df0 = []
   \<or> \<not> r_installed"
    and "computed ?R = None \<Longrightarrow> exit_code ?R = 1"
    by blast+
qed

section \<open>The exit status\<close>

lemma main_failure:
  assumes "computed (main fmts fit r_installed a df0) = Some out"
  shows "failure (main fmts fit r_installed a df0) =
     (case pickled out of
        None \<Rightarrow> raised out
      | Some res \<Rightarrow> (case generate_output_report fmts res of Inl e \<Rightarrow> Some e | Inr tabs \<Rightarrow> None))"
proof (cases rule: main_reaches[of fmts fit r_installed a df0])
  case none
  with assms show ?thesis by simp
next
  case (some df dmap sexc)
  from assms main_setup(1)[of fmts fit r_installed a df0] have r: "r_installed" by auto
  from some r assms show ?thesis
    by (auto simp: main_def Let_def check_r_installed_def split: option.splits sum.splits)
qed

lemma main_same_job:
  assumes "computed (main fmts fit r_installed a df0) = Some out"
    and "computed (main fmts' fit' r_installed a df0) = Some out'"
  shows "\<exists>j. out = compute_growth_curves fit j \<and> out' = compute_growth_curves fit' j"
proof (cases rule: main_reaches[of fmts fit r_installed a df0])
  case none
  with assms show ?thesis by simp
next
  case s1: (some df dmap sexc)
  show ?thesis
  proof (cases rule: main_reaches[of fmts' fit' r_installed a df0])
    case none
    with assms show ?thesis by simp
  next
    case s2: (some df' dmap' sexc')
    from s1(1) s2(1) have "df' = df" by simp
    moreover from s1(2) s2(2) have "dmap' = dmap" by simp
    moreover from s1(3) s2(3) \<open>df' = df\<close> have "sexc' = sexc" by simp
    ultimately show ?thesis using s1(7) s2(7) assms by auto
  qed
qed

text \<open>
  Claim C6, as the specification has it: once set-up has succeeded the process exits with
  status zero. For the table with four sexes set-up succeeds (a sex column, a biomarker
  column, R installed), and the run ends with the IndexError of the plot, status 1, before
  any combination.
\<close>

theorem exit_status_counterexample:
  "list_ex mentions_sex (columns four_frame)
   \<and> found_columns (tissue_types_of demo_args) (biomarker_types demo_args) four_frame \<noteq> []
   \<and> failure (main plain_formats echo_fitter True demo_args four_frame) = Some IndexError
   \<and> exit_code (main plain_formats echo_fitter True demo_args four_frame) = 1
   \<and> attempted (main plain_formats echo_fitter True demo_args four_frame) = []"
  by code_simp

text \<open>
  Claim C6, amended. A run without a sex column, without any expected biomarker column or
  without R ends with status 1 and has attempted no combination. When set-up succeeds
  (\<^verbatim>\<open>compute_growth_curves\<close> is entered), the status is zero exactly when
  \<^verbatim>\<open>compute_growth_curves\<close> does not raise and the report renders; whether
  \<^verbatim>\<open>compute_growth_curves\<close> raises is the same for every fitting procedure, so no
  failure of a fitting call changes it; and if it does not raise, the run in which every
  fitting call fails ends with status zero.
\<close>

theorem main_exit_status:
  "(\<not> list_ex mentions_sex (columns df0)
      \<or> found_columns (tissue_types_of a) (biomarker_types a) df0 = []
      \<or> \<not> r_installed \<longrightarrow>
        exit_code (main fmts fit r_installed a df0) = 1
      \<and> attempted (main fmts fit r_installed a df0) = [])
   \<and> (\<forall>out. computed (main fmts fit r_installed a df0) = Some out \<longrightarrow>
        (exit_code (main fmts fit r_installed a df0) = 0 \<longleftrightarrow>
           raised out = None \<and> \<not> isl (generate_output_report fmts (results (final out))))
      \<and> (\<forall>fmts' fit' out'. computed (main fmts' fit' r_installed a df0) = Some out' \<longrightarrow>
            raised out' = raised out)
      \<and> (raised out = None \<longrightarrow>
            exit_code (main fmts (\<lambda>h c. Raises) r_installed a df0) = 0))"
proof -
  let ?R = "main fmts fit r_installed a df0"
  have fatal: "exit_code ?R = 1 \<and> attempted ?R = []"
    if "\<not> list_ex mentions_sex (columns df0)
      \<or> found_columns (tissue_types_of a) (biomarker_types a) df0 = [] \<or> \<not> r_installed"
  proof -
    from that have "computed ?R = None" unfolding main_setup(1) by blast
    then show ?thesis by (simp add: main_setup(2) attempted_def)
  qed
  have code: "exit_code ?R = 0 \<longleftrightarrow>
      raised out = None \<and> \<not> isl (generate_output_report fmts (results (final out)))"
    if out: "computed ?R = Some out" for out
  proof -
    from main_same_job[OF out out] obtain j where j: "out = compute_growth_curves fit j" by blast
    show ?thesis
    proof (cases "pickled out")
      case None
      then have "raised out \<noteq> None" unfolding j by (simp add: pickled_iff_raised(1))
      with None show ?thesis by (auto simp: exit_code_def main_failure[OF out])
    next
      case (Some res)
      then have "raised out = None" unfolding j
        using pickled_iff_raised(1)[of fit j] by auto
      moreover from Some have "res = results (final out)" unfolding j
        by (rule pickled_iff_raised(2))
      ultimately show ?thesis using Some
        by (auto simp: exit_code_def main_failure[OF out] split: sum.splits)
    qed
  qed
  have same: "raised out' = raised out"
    if "computed ?R = Some out" "computed (main fmts' fit' r_installed a df0) = Some out'"
    for out fmts' fit' out'
    using main_same_job[OF that] compute_raised_any_fitter by metis
  have quiet: "exit_code (main fmts (\<lambda>h c. Raises) r_installed a df0) = 0"
    if out: "computed ?R = Some out" and ok: "raised out = None" for out
  proof -
    let ?Q = "main fmts (\<lambda>h c. Raises) r_installed a df0"
    have "computed ?Q \<noteq> None"
      using out main_setup(1)[of fmts fit r_installed a df0]
        main_setup(1)[of fmts "\<lambda>h c. Raises" r_installed a df0] by simp
    then obtain q where q: "computed ?Q = Some q" by auto
    from main_same_job[OF q out] obtain j where
      j: "q = compute_growth_curves (\<lambda>h c. Raises) j" "out = compute_growth_curves fit j"
      by blast
    have "raised q = None" using ok j compute_raised_any_fitter[of "\<lambda>h c. Raises" j fit] by simp
    then obtain res where res: "pickled q = Some res"
      unfolding j(1) using pickled_iff_raised(1)[of "\<lambda>h c. Raises" j] by auto
    then have "generate_output_report fmts res = Inr []"
      unfolding j(1) by (rule compute_raising_report)
    with res show ?thesis by (simp add: exit_code_def main_failure[OF q])
  qed
  from fatal code same quiet show ?thesis by blast
qed

theorem main_exit_status_witness:
  "exit_code (main plain_formats echo_fitter False demo_args demo_frame) = 1
   \<and> attempted (main plain_formats echo_fitter False demo_args demo_frame) = []
   \<and> computed (main plain_formats echo_fitter True demo_args demo_frame) \<noteq> None
   \<and> raised (the (computed (main plain_formats echo_fitter True demo_args demo_frame))) = None
   \<and> exit_code (main plain_formats (\<lambda>h c. Raises) True demo_args demo_frame) = 0"
proof -
  have c: "computed (main plain_formats echo_fitter True demo_args demo_frame) \<noteq> None"
    by code_simp
  have r: "raised (the (computed (main plain_formats echo_fitter True demo_args demo_frame)))
      = None"
    by code_simp
  from c have o: "computed (main plain_formats echo_fitter True demo_args demo_frame)
      = Some (the (computed (main plain_formats echo_fitter True demo_args demo_frame)))"
    by simp
  have f: "exit_code (main plain_formats echo_fitter False demo_args demo_frame) = 1
      \<and> attempted (main plain_formats echo_fitter False demo_args demo_frame) = []"
    using main_exit_status[of demo_frame demo_args False plain_formats echo_fitter] by blast
  have q: "exit_code (main plain_formats (\<lambda>h c. Raises) True demo_args demo_frame) = 0"
    using main_exit_status[of demo_frame demo_args True plain_formats echo_fitter] o r
    by blast
  from f c r q show ?thesis by simp
qed

section \<open>Disease columns that match and hold no value\<close>

text \<open>
  Claim C2 says that a combination whose matching disease columns leave no row is fitted
  without disease data and its result stored. In the run below the disease column
  \<open>GM_FA\<close> matches the biomarker \<open>WM_FA\<close> and leaves no row: the only fitting call is the
  one for \<open>WM_MD\<close>, and what is stored for \<open>WM_FA\<close> is the result of that call, left in
  the variable \<^verbatim>\<open>result\<close>. Asked for \<open>FA\<close> alone, the run makes no call at all and stores
  nothing, the variable being unbound.
\<close>

theorem empty_disease_subsets_skip_fit:
  "disease_cols [''GM_FA''] ''WM_FA'' = [''GM_FA'']
   \<and> disease_data_list bug_disease (rows bug_disease) ''Age'' ''WM_FA'' [(''GM_FA'', ''GM'')]
        [''GM_FA''] = []
   \<and> fitted_biomarkers (main plain_formats echo_fitter True bug_args bug_frame) = [''WM_MD'']
   \<and> stored_model_type (main plain_formats echo_fitter True bug_args bug_frame)
        ''WM'' (S ''F'') ''WM_FA'' = Some ''WM_MD''
   \<and> fitted_biomarkers (main plain_formats echo_fitter True bug_args_fa bug_frame) = []
   \<and> stored_model_type (main plain_formats echo_fitter True bug_args_fa bug_frame)
        ''WM'' (S ''F'') ''WM_FA'' = None
   \<and> exit_code (main plain_formats echo_fitter True bug_args_fa bug_frame) = 0"
  by code_simp

lemma fails_on_md_elsewhere:
  "column_y c \<noteq> ''WM_MD'' \<Longrightarrow> fails_on_md history c = echo_fitter history c"
  by (simp add: fails_on_md_def)

text \<open>
  Claim C3 says that after a fitting call that raises, the later combinations are processed
  as if it had succeeded. The two fitting procedures below differ only in the call for
  \<open>WM_MD\<close>. Where it raises, the exception is caught and nothing is stored for \<open>WM_MD\<close>,
  and nothing is stored for the next combination \<open>WM_FA\<close> either; where it succeeds, an
  entry is stored for \<open>WM_FA\<close>.
\<close>

theorem failed_fit_changes_next_combination:
  "failure (main plain_formats fails_on_md True bug_args bug_frame) = None
   \<and> fitted_biomarkers (main plain_formats fails_on_md True bug_args bug_frame) = [''WM_MD'']
   \<and> stored_model_type (main plain_formats fails_on_md True bug_args bug_frame)
        ''WM'' (S ''F'') ''WM_MD'' = None
   \<and> stored_model_type (main plain_formats fails_on_md True bug_args bug_frame)
        ''WM'' (S ''F'') ''WM_FA'' = None
   \<and> fitted_biomarkers (main plain_formats echo_fitter True bug_args bug_frame) = [''WM_MD'']
   \<and> stored_model_type (main plain_formats echo_fitter True bug_args bug_frame)
        ''WM'' (S ''F'') ''WM_FA'' = Some ''WM_MD''"
  by code_simp

end
